theory Spec2Isabelle
  imports Main "HOL-Library.Sublist"
begin

section \<open>Values that cross the handler boundary\<close>

text \<open>
  The public routes of the worker are asynchronous handlers that talk to a sandbox. A
  rejected promise (a thrown value) is a value of \<open>js_thrown\<close>: either an \<open>Error\<close> object
  with its message, or any other thrown value. The handlers read a thrown value only
  through \<^verbatim>\<open>err instanceof Error ? err.message : 'Unknown error'\<close>.
\<close>

datatype js_thrown = JsError string | JsOther

definition error_message :: "js_thrown \<Rightarrow> string" where
  "error_message err = (case err of JsError m \<Rightarrow> m | JsOther \<Rightarrow> ''Unknown error'')"

text \<open>The JSON values the handlers build, and the response \<^verbatim>\<open>c.json(obj, status)\<close> makes.\<close>

datatype json = JStr string | JBool bool | JNum nat

record http_response =
  code :: nat
  body :: "(string \<times> json) list"

definition c_json :: "(string \<times> json) list \<Rightarrow> http_response" where
  "c_json obj = \<lparr>code = 200, body = obj\<rparr>"

definition c_json_status :: "(string \<times> json) list \<Rightarrow> nat \<Rightarrow> http_response" where
  "c_json_status obj st = \<lparr>code = st, body = obj\<rparr>"

text \<open>A process handle of the sandbox (the handlers read \<^verbatim>\<open>process.id\<close> only) and its logs.\<close>

record process =
  pid :: string
  command :: string

record logs =
  stdout :: string
  stderr :: string

record wait_options =
  mode :: string
  timeout :: nat

section \<open>The sandbox interface\<close>

text \<open>
  The sandbox is an external collaborator. Each of its operations is a state transformer
  on the sandbox's own state \<open>'s\<close> that either resolves with a value (\<open>Inr\<close>) or rejects
  with a thrown value (\<open>Inl\<close>). The two helpers \<^verbatim>\<open>findExistingMoltbotProcess\<close> and
  \<^verbatim>\<open>killAllMoltbotProcesses\<close> are imported by the routes from \<^verbatim>\<open>../gateway\<close>; the routes
  only call them, so they are operations of the interface as well.
\<close>

record 's sandbox =
  startProcess :: "string \<Rightarrow> 's \<Rightarrow> (js_thrown + process) \<times> 's"
  getLogs :: "process \<Rightarrow> 's \<Rightarrow> (js_thrown + logs) \<times> 's"
  waitForPort :: "process \<Rightarrow> nat \<Rightarrow> wait_options \<Rightarrow> 's \<Rightarrow> (js_thrown + unit) \<times> 's"
  findExistingMoltbotProcess :: "'s \<Rightarrow> (js_thrown + process option) \<times> 's"
  killAllMoltbotProcesses :: "'s \<Rightarrow> (js_thrown + unit) \<times> 's"

section \<open>Asynchronous code: awaiting, sequencing, try and catch\<close>

text \<open>
  A handler runs in a world made of the sandbox state and the console. \<open>console.log\<close> and
  \<open>console.error\<close> append a line to the console.
\<close>

datatype console_entry = Log string | ErrorLog string js_thrown

record 's world =
  sbx :: 's
  console :: "console_entry list"

type_synonym ('s, 'a) async = "'s world \<Rightarrow> (js_thrown + 'a) \<times> 's world"

definition await :: "('s \<Rightarrow> (js_thrown + 'a) \<times> 's) \<Rightarrow> ('s, 'a) async" where
  "await op w = (case op (sbx w) of (r, s') \<Rightarrow> (r, w\<lparr>sbx := s'\<rparr>))"

definition ret :: "'a \<Rightarrow> ('s, 'a) async" where
  "ret x w = (Inr x, w)"

definition bnd :: "('s, 'a) async \<Rightarrow> ('a \<Rightarrow> ('s, 'b) async) \<Rightarrow> ('s, 'b) async" where
  "bnd m f w = (case m w of (Inl e, w') \<Rightarrow> (Inl e, w') | (Inr x, w') \<Rightarrow> f x w')"

definition try_catch :: "('s, 'a) async \<Rightarrow> (js_thrown \<Rightarrow> ('s, 'a) async) \<Rightarrow> ('s, 'a) async" where
  "try_catch m h w = (case m w of (Inl e, w') \<Rightarrow> h e w' | (Inr x, w') \<Rightarrow> (Inr x, w'))"

definition console_log :: "string \<Rightarrow> ('s, unit) async" where
  "console_log msg w = (Inr (), w\<lparr>console := console w @ [Log msg]\<rparr>)"

definition console_error :: "string \<Rightarrow> js_thrown \<Rightarrow> ('s, unit) async" where
  "console_error msg e w = (Inr (), w\<lparr>console := console w @ [ErrorLog msg e]\<rparr>)"

section \<open>GET /api/status\<close>

text \<open>
  The handler is the same in both versions of the routes file. The falsy test
  \<^verbatim>\<open>!process\<close> is the test for an absent process: a process object is never falsy.
\<close>

definition api_status :: "'s sandbox \<Rightarrow> ('s, http_response) async" where
  "api_status sandbox =
     try_catch
       (bnd (await (findExistingMoltbotProcess sandbox)) (\<lambda>process.
          case process of
            None \<Rightarrow> ret (c_json [(''ok'', JBool False), (''status'', JStr ''not_running'')])
          | Some p \<Rightarrow>
              try_catch
                (bnd (await (waitForPort sandbox p 18789 \<lparr>mode = ''tcp'', timeout = 5000\<rparr>)) (\<lambda>_.
                   ret (c_json [(''ok'', JBool True), (''status'', JStr ''running''),
                                (''processId'', JStr (pid p))])))
                (\<lambda>_. ret (c_json [(''ok'', JBool False), (''status'', JStr ''not_responding''),
                                 (''processId'', JStr (pid p))]))))
       (\<lambda>err. ret (c_json [(''ok'', JBool False), (''status'', JStr ''error''),
                           (''error'', JStr (error_message err))]))"

section \<open>/reset-factory-defaults\<close>

text \<open>
  The routes file exists in two versions. The first one (\<^verbatim>\<open>src/unnamed/part_000\<close>) kills
  the gateway processes, then wipes the local configuration, then the backup, all inside
  one \<^verbatim>\<open>try\<close> block.
\<close>

definition reset_factory_defaults_part_000 :: "'s sandbox \<Rightarrow> ('s, http_response) async" where
  "reset_factory_defaults_part_000 sandbox =
     try_catch
       (bnd (console_log ''[RESET] Initiating factory reset...'') (\<lambda>_.
        bnd (await (killAllMoltbotProcesses sandbox)) (\<lambda>_.
        bnd (console_log ''[RESET] Processes killed'') (\<lambda>_.
        bnd (await (startProcess sandbox ''rm -rf /root/.openclaw /root/.clawdbot'')) (\<lambda>_.
        bnd (console_log ''[RESET] Local config wiped'') (\<lambda>_.
        bnd (await (startProcess sandbox
               ''rm -rf /data/moltbot/openclaw /data/moltbot/clawdbot /data/moltbot/.last-sync /data/moltbot/openclaw.json /data/moltbot/clawdbot.json'')) (\<lambda>_.
        bnd (console_log ''[RESET] R2 backup wiped (attempted)'') (\<lambda>_.
        ret (c_json
          [(''status'', JStr ''ok''),
           (''message'', JStr ''Factory reset initiated. Gateway will restart and onboard freshly on next request.'')])))))))))
       (\<lambda>err.
        bnd (console_error ''[RESET] Failed:'' err) (\<lambda>_.
        ret (c_json_status
          [(''status'', JStr ''error''), (''message'', JStr (error_message err))] 500)))"

text \<open>
  The second one (\<^verbatim>\<open>src/unnamed/part_001\<close>) wipes first, each wipe inside a \<^verbatim>\<open>try\<close>
  block of its own, and kills the processes last, inside the outer \<^verbatim>\<open>try\<close> block only.
\<close>

definition reset_factory_defaults_part_001 :: "'s sandbox \<Rightarrow> ('s, http_response) async" where
  "reset_factory_defaults_part_001 sandbox =
     try_catch
       (bnd (console_log ''[RESET] Initiating factory reset...'') (\<lambda>_.
        bnd (try_catch
               (bnd (await (startProcess sandbox ''rm -rf /root/.openclaw /root/.clawdbot'')) (\<lambda>_.
                console_log ''[RESET] Local config wiped''))
               (\<lambda>e. console_error ''[RESET] Failed to wipe local config:'' e)) (\<lambda>_.
        bnd (try_catch
               (bnd (await (startProcess sandbox
                      ''rm -rf /data/moltbot/openclaw /data/moltbot/clawdbot /data/moltbot/.last-sync /data/moltbot/openclaw.json /data/moltbot/clawdbot.json'')) (\<lambda>_.
                console_log ''[RESET] R2 backup wiped (attempted)''))
               (\<lambda>e. console_error ''[RESET] Failed to wipe R2 backup:'' e)) (\<lambda>_.
        bnd (await (killAllMoltbotProcesses sandbox)) (\<lambda>_.
        bnd (console_log ''[RESET] Processes killed'') (\<lambda>_.
        ret (c_json
          [(''status'', JStr ''ok''),
           (''message'', JStr ''Factory reset initiated. Gateway will restart and onboard freshly on next request.'')])))))))
       (\<lambda>err.
        bnd (console_error ''[RESET] Failed:'' err) (\<lambda>_.
        ret (c_json_status
          [(''status'', JStr ''error''), (''message'', JStr (error_message err))] 500)))"

section \<open>GET /diagnose\<close>

text \<open>
  The worker's bindings \<^verbatim>\<open>c.env\<close>: the handlers read the gateway token only. A binding is
  absent or a string, and a test on it is JavaScript's truthiness: absent and the empty
  string are falsy.
\<close>

record bindings =
  MOLTBOT_GATEWAY_TOKEN :: "string option"

definition truthy :: "string option \<Rightarrow> bool" where
  "truthy v = (case v of None \<Rightarrow> False | Some str \<Rightarrow> str \<noteq> [])"

definition diagnose :: "bindings \<Rightarrow> 's sandbox \<Rightarrow> ('s, http_response) async" where
  "diagnose env sandbox =
     try_catch
       (bnd (await (startProcess sandbox ''cat /root/.openclaw/openclaw.json'')) (\<lambda>configProc.
        bnd (await (getLogs sandbox configProc)) (\<lambda>configLogs.
        bnd (await (startProcess sandbox ''env'')) (\<lambda>envProc.
        bnd (await (getLogs sandbox envProc)) (\<lambda>envLogs.
        bnd (await (startProcess sandbox ''ls -la /data/moltbot'')) (\<lambda>lsR2Proc.
        bnd (await (getLogs sandbox lsR2Proc)) (\<lambda>lsR2Logs.
        bnd (await (startProcess sandbox ''ls -la /root/.openclaw'')) (\<lambda>lsLocalProc.
        bnd (await (getLogs sandbox lsLocalProc)) (\<lambda>lsLocalLogs.
        ret (c_json
          [(''config'', JStr (stdout configLogs)),
           (''env'', JStr (stdout envLogs)),
           (''lsR2'', JStr (stdout lsR2Logs)),
           (''lsLocal'', JStr (stdout lsLocalLogs)),
           (''envConfig'', JStr (if truthy (MOLTBOT_GATEWAY_TOKEN env)
                                 then ''Has TOKEN env'' else ''No TOKEN env''))]))))))))))
       (\<lambda>e. ret (c_json_status [(''error'', JStr (error_message e))] 500))"

section \<open>Routing\<close>

text \<open>
  The routes of \<^verbatim>\<open>src/unnamed/part_001\<close> in the order they are registered.
  \<^verbatim>\<open>publicRoutes.get\<close> registers a handler for GET, \<^verbatim>\<open>publicRoutes.all\<close> one for every
  method; a HEAD request is answered by the handler registered for GET. A pattern that
  ends in \<^verbatim>\<open>/*\<close> matches every path below its stem, and the stem. The path of a
  request is its path after percent-decoding.
\<close>

datatype http_method = GET | POST | PUT | DELETE | PATCH | HEAD | OPTIONS

datatype route_method = Method http_method | AnyMethod

datatype handler =
    SandboxHealth | LogoPng | LogoSmallPng | ApiStatus | AdminAssets
  | ResetFactoryDefaults | Diagnose

definition publicRoutes :: "(route_method \<times> string \<times> handler) list" where
  "publicRoutes =
     [(Method GET, ''/sandbox-health'', SandboxHealth),
      (Method GET, ''/logo.png'', LogoPng),
      (Method GET, ''/logo-small.png'', LogoSmallPng),
      (Method GET, ''/api/status'', ApiStatus),
      (Method GET, ''/_admin/assets/*'', AdminAssets),
      (AnyMethod, ''/reset-factory-defaults'', ResetFactoryDefaults),
      (Method GET, ''/diagnose'', Diagnose)]"

definition method_matches :: "route_method \<Rightarrow> http_method \<Rightarrow> bool" where
  "method_matches rm m =
     (case rm of AnyMethod \<Rightarrow> True | Method m' \<Rightarrow> m' = m \<or> (m' = GET \<and> m = HEAD))"

definition path_matches :: "string \<Rightarrow> string \<Rightarrow> bool" where
  "path_matches pat path =
     (if suffix ''/*'' pat
      then (let stem = take (length pat - 2) pat in path = stem \<or> prefix (stem @ ''/'') path)
      else path = pat)"

definition find_route :: "http_method \<Rightarrow> string \<Rightarrow> handler option" where
  "find_route m path =
     map_option (\<lambda>r. snd (snd r))
       (find (\<lambda>r. method_matches (fst r) m \<and> path_matches (fst (snd r)) path) publicRoutes)"

text \<open>
  A request runs the handler of the first route that matches. The handlers that serve
  static assets and the fixed health document do not touch the sandbox and are not run
  here: for them, and when no route matches, the result is \<open>None\<close>.
\<close>

definition handle_request ::
  "bindings \<Rightarrow> 's sandbox \<Rightarrow> http_method \<Rightarrow> string \<Rightarrow> ('s, http_response) async option" where
  "handle_request env sandbox m path =
     (case find_route m path of
        Some ApiStatus \<Rightarrow> Some (api_status sandbox)
      | Some ResetFactoryDefaults \<Rightarrow> Some (reset_factory_defaults_part_001 sandbox)
      | Some Diagnose \<Rightarrow> Some (diagnose env sandbox)
      | _ \<Rightarrow> None)"

section \<open>Instrumentation: the sandbox calls a handler makes\<close>

text \<open>
  To observe which sandbox operations a handler issues and in which order, a sandbox is
  wrapped so that every operation records that it was issued and how it settled. A
  handler awaits each call before it goes on, so the two events of one call are adjacent.
\<close>

datatype call =
    StartProcess string
  | GetLogs process
  | WaitForPort process nat wait_options
  | FindExistingMoltbotProcess
  | KillAllMoltbotProcesses

datatype returned = RProcess process | RLogs logs | RFound "process option" | RUnit

datatype outcome = Resolved returned | Rejected js_thrown

datatype event = Issued call | Settled call outcome

definition outcome_of :: "('a \<Rightarrow> returned) \<Rightarrow> js_thrown + 'a \<Rightarrow> outcome" where
  "outcome_of to_ret r = (case r of Inl e \<Rightarrow> Rejected e | Inr x \<Rightarrow> Resolved (to_ret x))"

definition observe ::
  "call \<Rightarrow> ('a \<Rightarrow> returned) \<Rightarrow> ('s \<Rightarrow> (js_thrown + 'a) \<times> 's) \<Rightarrow>
   's \<times> event list \<Rightarrow> (js_thrown + 'a) \<times> ('s \<times> event list)" where
  "observe c to_ret op st =
     (case st of (s, tr) \<Rightarrow>
        (case op s of (r, s') \<Rightarrow> (r, (s', tr @ [Issued c, Settled c (outcome_of to_ret r)]))))"

definition instrument :: "'s sandbox \<Rightarrow> ('s \<times> event list) sandbox" where
  "instrument sb =
     \<lparr>startProcess = (\<lambda>cmd. observe (StartProcess cmd) RProcess (startProcess sb cmd)),
      getLogs = (\<lambda>p. observe (GetLogs p) RLogs (getLogs sb p)),
      waitForPort = (\<lambda>p port opts.
        observe (WaitForPort p port opts) (\<lambda>_. RUnit) (waitForPort sb p port opts)),
      findExistingMoltbotProcess =
        observe FindExistingMoltbotProcess RFound (findExistingMoltbotProcess sb),
      killAllMoltbotProcesses =
        observe KillAllMoltbotProcesses (\<lambda>_. RUnit) (killAllMoltbotProcesses sb)\<rparr>"

text \<open>Running a handler on an instrumented sandbox from an empty trace and console.\<close>

definition start :: "'s \<Rightarrow> ('s \<times> event list) world" where
  "start s = \<lparr>sbx = (s, []), console = []\<rparr>"

definition response_of :: "(js_thrown + http_response) \<times> 'w \<Rightarrow> js_thrown + http_response" where
  "response_of r = fst r"

definition trace_of :: "'a \<times> ('s \<times> event list) world \<Rightarrow> event list" where
  "trace_of r = snd (sbx (snd r))"

definition final_of :: "'a \<times> ('s \<times> event list) world \<Rightarrow> 's" where
  "final_of r = fst (sbx (snd r))"

section \<open>A reference sandbox\<close>

text \<open>
  The sandbox itself, the shell that runs a command inside it and the two gateway helpers
  are not part of the routes file. The reference sandbox below is the environment the
  specification describes: a set of existing paths, the running gateway processes, the
  ports that accept connections, what each command prints, and the calls that are made
  to fail.
\<close>

record ref_state =
  files :: "string set"
  gateway :: "process list"
  listening :: "nat set"
  printed :: "string \<Rightarrow> logs"
  faults :: "call set"
  spawned :: nat

text \<open>A command line is split into words at spaces; nothing is expanded.\<close>

fun split_words :: "string \<Rightarrow> string \<Rightarrow> string list" where
  "split_words acc [] = (if acc = [] then [] else [rev acc])"
| "split_words acc (c # cs) =
     (if c = CHR '' ''
      then (if acc = [] then [] else [rev acc]) @ split_words [] cs
      else split_words (c # acc) cs)"

definition shell_words :: "string \<Rightarrow> string list" where
  "shell_words cmd = split_words [] cmd"

text \<open>
  The characters a shell expands or interprets: wildcards, braces, tilde, variables,
  substitution, quoting, and the control operators.
\<close>

definition shell_meta :: "char list" where
  "shell_meta = ''*?[]{}~$|&;<>()!#'' @ [CHR 0x22, CHR 0x27, CHR 0x5C, CHR 0x60, CHR 0x09, CHR 0x0A]"

definition has_meta :: "string \<Rightarrow> bool" where
  "has_meta w = list_ex (\<lambda>c. c \<in> set shell_meta) w"

text \<open>A path is at or under a target when it is the target or lies inside its tree.\<close>

definition under :: "string \<Rightarrow> string \<Rightarrow> bool" where
  "under target path = (path = target \<or> prefix (target @ ''/'') path)"

definition under_any :: "string list \<Rightarrow> string \<Rightarrow> bool" where
  "under_any targets path = list_ex (\<lambda>t. under t path) targets"

text \<open>
  Modelled from the spec: the sandbox's \<^verbatim>\<open>rm -rf\<close> is missing from the source. It is
  "a recursive, idempotent delete of a fixed, explicit set of paths", and "absence of a
  path is success, not an error".
\<close>

definition rm_rf :: "string list \<Rightarrow> string set \<Rightarrow> string set" where
  "rm_rf targets fs = Set.filter (\<lambda>path. \<not> under_any targets path) fs"

text \<open>
  Modelled from the spec: the shell of the sandbox is missing from the source. Of the
  commands the routes start, only \<^verbatim>\<open>rm -rf\<close> changes the stored paths; \<^verbatim>\<open>cat\<close>,
  \<^verbatim>\<open>env\<close> and \<^verbatim>\<open>ls -la\<close> read.
\<close>

definition run_command :: "string \<Rightarrow> string set \<Rightarrow> string set" where
  "run_command cmd fs =
     (case shell_words cmd of
        w1 # w2 # targets \<Rightarrow> (if w1 = ''rm'' \<and> w2 = ''-rf'' then rm_rf targets fs else fs)
      | _ \<Rightarrow> fs)"

fun string_of_nat :: "nat \<Rightarrow> string" where
  "string_of_nat n =
     (if n < 10 then [''0123456789'' ! n]
      else string_of_nat (n div 10) @ [''0123456789'' ! (n mod 10)])"

declare string_of_nat.simps [simp del]

text \<open>
  Modelled from the spec: \<^verbatim>\<open>sandbox.startProcess\<close> is missing from the source. It
  "start[s] a process given a shell command, returning a handle/id and access to its
  logs"; a single delete "either happens or doesn't". In the model a command has taken
  its effect when the call resolves, and a call that rejects has had none.
\<close>

definition ref_startProcess :: "string \<Rightarrow> ref_state \<Rightarrow> (js_thrown + process) \<times> ref_state" where
  "ref_startProcess cmd s =
     (if StartProcess cmd \<in> faults s then (Inl (JsError ''startProcess failed''), s)
      else (Inr \<lparr>pid = ''proc_'' @ string_of_nat (spawned s), command = cmd\<rparr>,
            s\<lparr>files := run_command cmd (files s), spawned := Suc (spawned s)\<rparr>))"

text \<open>
  Modelled from the spec: \<^verbatim>\<open>process.getLogs\<close> is missing from the source. It gives
  "access to [the] logs" of a started process.
\<close>

definition ref_getLogs :: "process \<Rightarrow> ref_state \<Rightarrow> (js_thrown + logs) \<times> ref_state" where
  "ref_getLogs p s =
     (if GetLogs p \<in> faults s then (Inl (JsError ''getLogs failed''), s)
      else (Inr (printed s (command p)), s))"

text \<open>
  Modelled from the spec: \<^verbatim>\<open>process.waitForPort\<close> is missing from the source. It
  "wait[s] for a TCP port to become reachable on a given process's network context, with
  a timeout, failing (not throwing fatally) on timeout".
\<close>

definition ref_waitForPort ::
  "process \<Rightarrow> nat \<Rightarrow> wait_options \<Rightarrow> ref_state \<Rightarrow> (js_thrown + unit) \<times> ref_state" where
  "ref_waitForPort p port opts s =
     (if WaitForPort p port opts \<in> faults s then (Inl (JsError ''waitForPort failed''), s)
      else if port \<in> listening s then (Inr (), s)
      else (Inl (JsError ''timeout waiting for port''), s))"

text \<open>
  Modelled from the spec: \<^verbatim>\<open>findExistingMoltbotProcess\<close> of \<^verbatim>\<open>../gateway\<close> is missing
  from the source. It "lists all processes known to the sandbox and returns the single
  one whose start command matches the gateway's canonical launch command", and it "must
  not start a new process as a side effect of searching".
\<close>

definition ref_findExistingMoltbotProcess :: "ref_state \<Rightarrow> (js_thrown + process option) \<times> ref_state" where
  "ref_findExistingMoltbotProcess s =
     (if FindExistingMoltbotProcess \<in> faults s then (Inl (JsError ''listProcesses failed''), s)
      else (Inr (case gateway s of [] \<Rightarrow> None | p # _ \<Rightarrow> Some p), s))"

text \<open>
  Modelled from the spec: \<^verbatim>\<open>killAllMoltbotProcesses\<close> of \<^verbatim>\<open>../gateway\<close> is missing from
  the source. It "identifies every process matching the gateway's identity [...] and
  issues a stop/kill signal to each", it "must not fail the whole operation merely
  because zero matching processes exist", and its side effect is that "processes
  disappear from the sandbox's process list".
\<close>

definition ref_killAllMoltbotProcesses :: "ref_state \<Rightarrow> (js_thrown + unit) \<times> ref_state" where
  "ref_killAllMoltbotProcesses s =
     (if KillAllMoltbotProcesses \<in> faults s then (Inl (JsError ''kill failed''), s)
      else (Inr (), s\<lparr>gateway := [], listening := {}\<rparr>))"

definition ref_sandbox :: "ref_state sandbox" where
  "ref_sandbox =
     \<lparr>startProcess = ref_startProcess,
      getLogs = ref_getLogs,
      waitForPort = ref_waitForPort,
      findExistingMoltbotProcess = ref_findExistingMoltbotProcess,
      killAllMoltbotProcesses = ref_killAllMoltbotProcesses\<rparr>"

text \<open>The fixed path sets of the two wipe phases, as the specification declares them.\<close>

definition local_targets :: "string list" where
  "local_targets = [''/root/.openclaw'', ''/root/.clawdbot'']"

definition backup_targets :: "string list" where
  "backup_targets =
     [''/data/moltbot/openclaw'', ''/data/moltbot/clawdbot'', ''/data/moltbot/.last-sync'',
      ''/data/moltbot/openclaw.json'', ''/data/moltbot/clawdbot.json'']"

text \<open>Concrete states of the reference sandbox, used to run the handlers.\<close>

definition no_logs :: logs where
  "no_logs = \<lparr>stdout = [], stderr = []\<rparr>"

definition gateway_process :: process where
  "gateway_process = \<lparr>pid = ''proc_gw'', command = ''/usr/local/bin/start-moltbot.sh''\<rparr>"

definition fresh_state :: ref_state where
  "fresh_state =
     \<lparr>files = {}, gateway = [], listening = {}, printed = (\<lambda>_. no_logs), faults = {},
      spawned = 0\<rparr>"

definition populated_state :: ref_state where
  "populated_state =
     \<lparr>files = {''/root/.openclaw'', ''/root/.openclaw/openclaw.json'', ''/root/.clawdbot'',
               ''/root/.openclaw-keep'', ''/data/moltbot/openclaw/openclaw.json'',
               ''/data/moltbot/.last-sync'', ''/data/moltbot/skills/a.md'', ''/etc/passwd''},
      gateway = [gateway_process], listening = {18789}, printed = (\<lambda>_. no_logs),
      faults = {}, spawned = 0\<rparr>"

section \<open>Names for the commands and responses of the handlers\<close>

definition wipe_local_cmd :: string where
  "wipe_local_cmd = ''rm -rf /root/.openclaw /root/.clawdbot''"

definition wipe_backup_cmd :: string where
  "wipe_backup_cmd =
     ''rm -rf /data/moltbot/openclaw /data/moltbot/clawdbot /data/moltbot/.last-sync /data/moltbot/openclaw.json /data/moltbot/clawdbot.json''"

definition reset_ok :: http_response where
  "reset_ok =
     c_json
       [(''status'', JStr ''ok''),
        (''message'', JStr ''Factory reset initiated. Gateway will restart and onboard freshly on next request.'')]"

definition reset_failed :: "js_thrown \<Rightarrow> http_response" where
  "reset_failed err =
     c_json_status [(''status'', JStr ''error''), (''message'', JStr (error_message err))] 500"

definition cat_config_cmd :: string where
  "cat_config_cmd = ''cat /root/.openclaw/openclaw.json''"

definition env_cmd :: string where
  "env_cmd = ''env''"

definition ls_backup_cmd :: string where
  "ls_backup_cmd = ''ls -la /data/moltbot''"

definition ls_local_cmd :: string where
  "ls_local_cmd = ''ls -la /root/.openclaw''"

definition token_flag :: "bindings \<Rightarrow> string" where
  "token_flag env =
     (if truthy (MOLTBOT_GATEWAY_TOKEN env) then ''Has TOKEN env'' else ''No TOKEN env'')"

definition snapshot :: "bindings \<Rightarrow> logs \<Rightarrow> logs \<Rightarrow> logs \<Rightarrow> logs \<Rightarrow> http_response" where
  "snapshot env configLogs envLogs lsR2Logs lsLocalLogs =
     c_json
       [(''config'', JStr (stdout configLogs)),
        (''env'', JStr (stdout envLogs)),
        (''lsR2'', JStr (stdout lsR2Logs)),
        (''lsLocal'', JStr (stdout lsLocalLogs)),
        (''envConfig'', JStr (token_flag env))]"

definition diagnose_failed :: "js_thrown \<Rightarrow> http_response" where
  "diagnose_failed e = c_json_status [(''error'', JStr (error_message e))] 500"

definition port_options :: wait_options where
  "port_options = \<lparr>mode = ''tcp'', timeout = 5000\<rparr>"

section \<open>Observations on a trace and on a response\<close>

fun issued_calls :: "event list \<Rightarrow> call list" where
  "issued_calls [] = []"
| "issued_calls (Issued c # es) = c # issued_calls es"
| "issued_calls (Settled c out # es) = issued_calls es"

definition is_rejected :: "event \<Rightarrow> bool" where
  "is_rejected ev = (case ev of Settled c (Rejected e) \<Rightarrow> True | _ \<Rightarrow> False)"

definition is_probe :: "event \<Rightarrow> bool" where
  "is_probe ev = (case ev of Issued (WaitForPort p port opts) \<Rightarrow> True | _ \<Rightarrow> False)"

text \<open>
  The monitor of the wipe-before-terminate order: it reads a trace from the left,
  remembers which of the two wipe commands have settled, and refuses a kill that is
  issued before both have.
\<close>

fun wipes_settled :: "bool \<Rightarrow> bool \<Rightarrow> event list \<Rightarrow> bool" where
  "wipes_settled l b [] = True"
| "wipes_settled l b (Issued c # es) =
     (if c = KillAllMoltbotProcesses then l \<and> b \<and> wipes_settled l b es
      else wipes_settled l b es)"
| "wipes_settled l b (Settled c out # es) =
     wipes_settled (l \<or> c = StartProcess wipe_local_cmd) (b \<or> c = StartProcess wipe_backup_cmd) es"

definition wipes_before_kill :: "event list \<Rightarrow> bool" where
  "wipes_before_kill tr = wipes_settled False False tr"

text \<open>
  The strings the sandbox handed to the handler in a run: the standard output of every
  log it resolved with, and the message of every thrown value it rejected with.
\<close>

fun sandbox_strings :: "event list \<Rightarrow> string list" where
  "sandbox_strings [] = []"
| "sandbox_strings (Settled c (Resolved (RLogs l)) # es) = stdout l # sandbox_strings es"
| "sandbox_strings (Settled c (Rejected e) # es) = error_message e # sandbox_strings es"
| "sandbox_strings (ev # es) = sandbox_strings es"

fun json_strings :: "(string \<times> json) list \<Rightarrow> string list" where
  "json_strings [] = []"
| "json_strings ((k, JStr str) # kvs) = str # json_strings kvs"
| "json_strings (kv # kvs) = json_strings kvs"

definition response_strings :: "js_thrown + http_response \<Rightarrow> string list" where
  "response_strings r = (case r of Inl e \<Rightarrow> [] | Inr resp \<Rightarrow> json_strings (body resp))"

definition mentions :: "string \<Rightarrow> js_thrown + http_response \<Rightarrow> bool" where
  "mentions tok r = list_ex (sublist tok) (response_strings r)"

definition without_field :: "string \<Rightarrow> js_thrown + http_response \<Rightarrow> js_thrown + http_response" where
  "without_field k r =
     (case r of Inl e \<Rightarrow> Inl e
      | Inr resp \<Rightarrow> Inr (resp\<lparr>body := filter (\<lambda>kv. fst kv \<noteq> k) (body resp)\<rparr>))"

text \<open>
  Further states of the reference sandbox: a gateway whose port never opens, a kill that
  fails, a local wipe that fails, an environment that holds the token, and a read of the
  configuration file that cannot be started.
\<close>

definition stuck_state :: ref_state where
  "stuck_state = populated_state\<lparr>listening := {}\<rparr>"

definition kill_fails_state :: ref_state where
  "kill_fails_state = populated_state\<lparr>faults := {KillAllMoltbotProcesses}\<rparr>"

definition wipe_local_fails_state :: ref_state where
  "wipe_local_fails_state = populated_state\<lparr>faults := {StartProcess wipe_local_cmd}\<rparr>"

definition leaky_state :: ref_state where
  "leaky_state =
     populated_state\<lparr>printed :=
       (\<lambda>cmd. if cmd = env_cmd then \<lparr>stdout = ''MOLTBOT_GATEWAY_TOKEN=s3cr3t'', stderr = []\<rparr>
              else no_logs)\<rparr>"

definition cat_fails_state :: ref_state where
  "cat_fails_state = populated_state\<lparr>faults := {StartProcess cat_config_cmd}\<rparr>"

text \<open>
  One reset request on the reference sandbox, and the sandbox it leaves. Between two
  requests the calls that are made to fail may change.
\<close>

definition reset_on :: "ref_state \<Rightarrow> (js_thrown + http_response) \<times> ref_state world" where
  "reset_on s = reset_factory_defaults_part_001 ref_sandbox \<lparr>sbx = s, console = []\<rparr>"

definition after_reset :: "ref_state \<Rightarrow> ref_state" where
  "after_reset s = sbx (snd (reset_on s))"

definition kill_fails_fresh_state :: ref_state where
  "kill_fails_fresh_state = fresh_state\<lparr>faults := {KillAllMoltbotProcesses}\<rparr>"

text \<open>The commands a run has started, in order.\<close>

fun started_commands :: "event list \<Rightarrow> string list" where
  "started_commands [] = []"
| "started_commands (Issued (StartProcess cmd) # es) = cmd # started_commands es"
| "started_commands (ev # es) = started_commands es"

section \<open>Running the handlers\<close>

subsection \<open>The operations of an instrumented sandbox\<close>

lemma startProcess_instrument:
  "startProcess (instrument sb) cmd (s, tr) =
     (fst (startProcess sb cmd s),
      (snd (startProcess sb cmd s),
       tr @ [Issued (StartProcess cmd),
             Settled (StartProcess cmd) (outcome_of RProcess (fst (startProcess sb cmd s)))]))"
  by (simp add: instrument_def observe_def split: prod.splits)

lemma getLogs_instrument:
  "getLogs (instrument sb) p (s, tr) =
     (fst (getLogs sb p s),
      (snd (getLogs sb p s),
       tr @ [Issued (GetLogs p), Settled (GetLogs p) (outcome_of RLogs (fst (getLogs sb p s)))]))"
  by (simp add: instrument_def observe_def split: prod.splits)

lemma waitForPort_instrument:
  "waitForPort (instrument sb) p port opts (s, tr) =
     (fst (waitForPort sb p port opts s),
      (snd (waitForPort sb p port opts s),
       tr @ [Issued (WaitForPort p port opts),
             Settled (WaitForPort p port opts)
               (outcome_of (\<lambda>_. RUnit) (fst (waitForPort sb p port opts s)))]))"
  by (simp add: instrument_def observe_def split: prod.splits)

lemma findExisting_instrument:
  "findExistingMoltbotProcess (instrument sb) (s, tr) =
     (fst (findExistingMoltbotProcess sb s),
      (snd (findExistingMoltbotProcess sb s),
       tr @ [Issued FindExistingMoltbotProcess,
             Settled FindExistingMoltbotProcess
               (outcome_of RFound (fst (findExistingMoltbotProcess sb s)))]))"
  by (simp add: instrument_def observe_def split: prod.splits)

lemma killAll_instrument:
  "killAllMoltbotProcesses (instrument sb) (s, tr) =
     (fst (killAllMoltbotProcesses sb s),
      (snd (killAllMoltbotProcesses sb s),
       tr @ [Issued KillAllMoltbotProcesses,
             Settled KillAllMoltbotProcesses
               (outcome_of (\<lambda>_. RUnit) (fst (killAllMoltbotProcesses sb s)))]))"
  by (simp add: instrument_def observe_def split: prod.splits)

lemmas instrument_ops =
  startProcess_instrument getLogs_instrument waitForPort_instrument
  findExisting_instrument killAll_instrument

subsection \<open>What each handler computes, step by step\<close>

lemma reset_001_shape:
  "try_catch
     (bnd (console_log m0) (\<lambda>_.
      bnd (try_catch (bnd (await (startProcess sb c1)) (\<lambda>_. console_log m1))
                     (\<lambda>e. console_error m1e e)) (\<lambda>_.
      bnd (try_catch (bnd (await (startProcess sb c2)) (\<lambda>_. console_log m2))
                     (\<lambda>e. console_error m2e e)) (\<lambda>_.
      bnd (await (killAllMoltbotProcesses sb)) (\<lambda>_.
      bnd (console_log m3) (\<lambda>_.
      ret ok))))))
     (\<lambda>err. bnd (console_error mf err) (\<lambda>_. ret (bad err))) w
   = (case startProcess sb c1 (sbx w) of (r1, s1) \<Rightarrow>
      case startProcess sb c2 s1 of (r2, s2) \<Rightarrow>
      case killAllMoltbotProcesses sb s2 of (r3, s3) \<Rightarrow>
        (Inr (case r3 of Inr u \<Rightarrow> ok | Inl e \<Rightarrow> bad e),
         \<lparr>sbx = s3,
          console = console w @
            [Log m0,
             (case r1 of Inr p \<Rightarrow> Log m1 | Inl e \<Rightarrow> ErrorLog m1e e),
             (case r2 of Inr p \<Rightarrow> Log m2 | Inl e \<Rightarrow> ErrorLog m2e e),
             (case r3 of Inr u \<Rightarrow> Log m3 | Inl e \<Rightarrow> ErrorLog mf e)]\<rparr>))"
  by (simp add: try_catch_def bnd_def await_def ret_def console_log_def console_error_def
      split: prod.splits sum.splits)

lemma reset_part_001_run:
  "reset_factory_defaults_part_001 sb w =
     (case startProcess sb wipe_local_cmd (sbx w) of (r1, s1) \<Rightarrow>
      case startProcess sb wipe_backup_cmd s1 of (r2, s2) \<Rightarrow>
      case killAllMoltbotProcesses sb s2 of (r3, s3) \<Rightarrow>
        (Inr (case r3 of Inr u \<Rightarrow> reset_ok | Inl e \<Rightarrow> reset_failed e),
         \<lparr>sbx = s3,
          console = console w @
            [Log ''[RESET] Initiating factory reset...'',
             (case r1 of Inr p \<Rightarrow> Log ''[RESET] Local config wiped''
              | Inl e \<Rightarrow> ErrorLog ''[RESET] Failed to wipe local config:'' e),
             (case r2 of Inr p \<Rightarrow> Log ''[RESET] R2 backup wiped (attempted)''
              | Inl e \<Rightarrow> ErrorLog ''[RESET] Failed to wipe R2 backup:'' e),
             (case r3 of Inr u \<Rightarrow> Log ''[RESET] Processes killed''
              | Inl e \<Rightarrow> ErrorLog ''[RESET] Failed:'' e)]\<rparr>))"
  unfolding reset_factory_defaults_part_001_def wipe_local_cmd_def wipe_backup_cmd_def
    reset_ok_def reset_failed_def
  by (rule reset_001_shape)

lemma reset_000_shape:
  "try_catch
     (bnd (console_log m0) (\<lambda>_.
      bnd (await (killAllMoltbotProcesses sb)) (\<lambda>_.
      bnd (console_log mk) (\<lambda>_.
      bnd (await (startProcess sb c1)) (\<lambda>_.
      bnd (console_log m1) (\<lambda>_.
      bnd (await (startProcess sb c2)) (\<lambda>_.
      bnd (console_log m2) (\<lambda>_.
      ret ok))))))))
     (\<lambda>err. bnd (console_error mf err) (\<lambda>_. ret (bad err))) w
   = (case killAllMoltbotProcesses sb (sbx w) of
        (Inl e, s1) \<Rightarrow>
          (Inr (bad e), \<lparr>sbx = s1, console = console w @ [Log m0, ErrorLog mf e]\<rparr>)
      | (Inr u, s1) \<Rightarrow>
          (case startProcess sb c1 s1 of
             (Inl e, s2) \<Rightarrow>
               (Inr (bad e), \<lparr>sbx = s2, console = console w @ [Log m0, Log mk, ErrorLog mf e]\<rparr>)
           | (Inr p1, s2) \<Rightarrow>
               (case startProcess sb c2 s2 of
                  (Inl e, s3) \<Rightarrow>
                    (Inr (bad e),
                     \<lparr>sbx = s3, console = console w @ [Log m0, Log mk, Log m1, ErrorLog mf e]\<rparr>)
                | (Inr p2, s3) \<Rightarrow>
                    (Inr ok,
                     \<lparr>sbx = s3, console = console w @ [Log m0, Log mk, Log m1, Log m2]\<rparr>))))"
  by (simp add: try_catch_def bnd_def await_def ret_def console_log_def console_error_def
      split: prod.splits sum.splits)

lemma reset_part_000_run:
  "reset_factory_defaults_part_000 sb w =
     (case killAllMoltbotProcesses sb (sbx w) of
        (Inl e, s1) \<Rightarrow>
          (Inr (reset_failed e),
           \<lparr>sbx = s1,
            console = console w @
              [Log ''[RESET] Initiating factory reset...'', ErrorLog ''[RESET] Failed:'' e]\<rparr>)
      | (Inr u, s1) \<Rightarrow>
          (case startProcess sb wipe_local_cmd s1 of
             (Inl e, s2) \<Rightarrow>
               (Inr (reset_failed e),
                \<lparr>sbx = s2,
                 console = console w @
                   [Log ''[RESET] Initiating factory reset...'', Log ''[RESET] Processes killed'',
                    ErrorLog ''[RESET] Failed:'' e]\<rparr>)
           | (Inr p1, s2) \<Rightarrow>
               (case startProcess sb wipe_backup_cmd s2 of
                  (Inl e, s3) \<Rightarrow>
                    (Inr (reset_failed e),
                     \<lparr>sbx = s3,
                      console = console w @
                        [Log ''[RESET] Initiating factory reset...'',
                         Log ''[RESET] Processes killed'', Log ''[RESET] Local config wiped'',
                         ErrorLog ''[RESET] Failed:'' e]\<rparr>)
                | (Inr p2, s3) \<Rightarrow>
                    (Inr reset_ok,
                     \<lparr>sbx = s3,
                      console = console w @
                        [Log ''[RESET] Initiating factory reset...'',
                         Log ''[RESET] Processes killed'', Log ''[RESET] Local config wiped'',
                         Log ''[RESET] R2 backup wiped (attempted)'']\<rparr>))))"
  unfolding reset_factory_defaults_part_000_def wipe_local_cmd_def wipe_backup_cmd_def
    reset_ok_def reset_failed_def
  by (rule reset_000_shape)

lemma diagnose_shape:
  "try_catch
     (bnd (await (startProcess sb c1)) (\<lambda>p1.
      bnd (await (getLogs sb p1)) (\<lambda>l1.
      bnd (await (startProcess sb c2)) (\<lambda>p2.
      bnd (await (getLogs sb p2)) (\<lambda>l2.
      bnd (await (startProcess sb c3)) (\<lambda>p3.
      bnd (await (getLogs sb p3)) (\<lambda>l3.
      bnd (await (startProcess sb c4)) (\<lambda>p4.
      bnd (await (getLogs sb p4)) (\<lambda>l4.
      ret (good l1 l2 l3 l4))))))))))
     (\<lambda>e. ret (bad e)) w
   = (case startProcess sb c1 (sbx w) of
        (Inl e, s) \<Rightarrow> (Inr (bad e), w\<lparr>sbx := s\<rparr>)
      | (Inr p1, s) \<Rightarrow>
     (case getLogs sb p1 s of
        (Inl e, s) \<Rightarrow> (Inr (bad e), w\<lparr>sbx := s\<rparr>)
      | (Inr l1, s) \<Rightarrow>
     (case startProcess sb c2 s of
        (Inl e, s) \<Rightarrow> (Inr (bad e), w\<lparr>sbx := s\<rparr>)
      | (Inr p2, s) \<Rightarrow>
     (case getLogs sb p2 s of
        (Inl e, s) \<Rightarrow> (Inr (bad e), w\<lparr>sbx := s\<rparr>)
      | (Inr l2, s) \<Rightarrow>
     (case startProcess sb c3 s of
        (Inl e, s) \<Rightarrow> (Inr (bad e), w\<lparr>sbx := s\<rparr>)
      | (Inr p3, s) \<Rightarrow>
     (case getLogs sb p3 s of
        (Inl e, s) \<Rightarrow> (Inr (bad e), w\<lparr>sbx := s\<rparr>)
      | (Inr l3, s) \<Rightarrow>
     (case startProcess sb c4 s of
        (Inl e, s) \<Rightarrow> (Inr (bad e), w\<lparr>sbx := s\<rparr>)
      | (Inr p4, s) \<Rightarrow>
     (case getLogs sb p4 s of
        (Inl e, s) \<Rightarrow> (Inr (bad e), w\<lparr>sbx := s\<rparr>)
      | (Inr l4, s) \<Rightarrow> (Inr (good l1 l2 l3 l4), w\<lparr>sbx := s\<rparr>)))))))))"
  by (simp add: try_catch_def bnd_def await_def ret_def split: prod.splits sum.splits)

lemma diagnose_run:
  "diagnose env sb w
   = (case startProcess sb cat_config_cmd (sbx w) of
        (Inl e, s) \<Rightarrow> (Inr (diagnose_failed e), w\<lparr>sbx := s\<rparr>)
      | (Inr p1, s) \<Rightarrow>
     (case getLogs sb p1 s of
        (Inl e, s) \<Rightarrow> (Inr (diagnose_failed e), w\<lparr>sbx := s\<rparr>)
      | (Inr l1, s) \<Rightarrow>
     (case startProcess sb env_cmd s of
        (Inl e, s) \<Rightarrow> (Inr (diagnose_failed e), w\<lparr>sbx := s\<rparr>)
      | (Inr p2, s) \<Rightarrow>
     (case getLogs sb p2 s of
        (Inl e, s) \<Rightarrow> (Inr (diagnose_failed e), w\<lparr>sbx := s\<rparr>)
      | (Inr l2, s) \<Rightarrow>
     (case startProcess sb ls_backup_cmd s of
        (Inl e, s) \<Rightarrow> (Inr (diagnose_failed e), w\<lparr>sbx := s\<rparr>)
      | (Inr p3, s) \<Rightarrow>
     (case getLogs sb p3 s of
        (Inl e, s) \<Rightarrow> (Inr (diagnose_failed e), w\<lparr>sbx := s\<rparr>)
      | (Inr l3, s) \<Rightarrow>
     (case startProcess sb ls_local_cmd s of
        (Inl e, s) \<Rightarrow> (Inr (diagnose_failed e), w\<lparr>sbx := s\<rparr>)
      | (Inr p4, s) \<Rightarrow>
     (case getLogs sb p4 s of
        (Inl e, s) \<Rightarrow> (Inr (diagnose_failed e), w\<lparr>sbx := s\<rparr>)
      | (Inr l4, s) \<Rightarrow> (Inr (snapshot env l1 l2 l3 l4), w\<lparr>sbx := s\<rparr>)))))))))"
  unfolding diagnose_def cat_config_cmd_def env_cmd_def ls_backup_cmd_def ls_local_cmd_def
    diagnose_failed_def snapshot_def token_flag_def
  by (rule diagnose_shape)

lemma api_status_run:
  "api_status sb w =
     (case findExistingMoltbotProcess sb (sbx w) of
        (Inl err, s1) \<Rightarrow>
          (Inr (c_json [(''ok'', JBool False), (''status'', JStr ''error''),
                        (''error'', JStr (error_message err))]), w\<lparr>sbx := s1\<rparr>)
      | (Inr None, s1) \<Rightarrow>
          (Inr (c_json [(''ok'', JBool False), (''status'', JStr ''not_running'')]), w\<lparr>sbx := s1\<rparr>)
      | (Inr (Some p), s1) \<Rightarrow>
          (case waitForPort sb p 18789 port_options s1 of
             (Inl e, s2) \<Rightarrow>
               (Inr (c_json [(''ok'', JBool False), (''status'', JStr ''not_responding''),
                             (''processId'', JStr (pid p))]), w\<lparr>sbx := s2\<rparr>)
           | (Inr u, s2) \<Rightarrow>
               (Inr (c_json [(''ok'', JBool True), (''status'', JStr ''running''),
                             (''processId'', JStr (pid p))]), w\<lparr>sbx := s2\<rparr>)))"
  by (simp add: api_status_def port_options_def try_catch_def bnd_def await_def ret_def
      split: prod.splits sum.splits option.splits)

lemmas ref_ops =
  ref_sandbox_def ref_startProcess_def ref_getLogs_def ref_waitForPort_def
  ref_findExistingMoltbotProcess_def ref_killAllMoltbotProcesses_def

lemmas observers = start_def trace_of_def response_of_def final_of_def

section \<open>The status handler\<close>

text \<open>
  Claim C5. When the search for the gateway process resolves with no process, the status
  handler answers \<^verbatim>\<open>{ok: false, status: 'not_running'}\<close> and the only sandbox call it
  has made is the search: no port probe is issued.
\<close>

theorem status_not_running_without_probe:
  assumes "findExistingMoltbotProcess sb s = (Inr None, s')"
  shows "response_of (api_status (instrument sb) (start s)) =
           Inr (c_json [(''ok'', JBool False), (''status'', JStr ''not_running'')])
         \<and> trace_of (api_status (instrument sb) (start s)) =
           [Issued FindExistingMoltbotProcess,
            Settled FindExistingMoltbotProcess (Resolved (RFound None))]
         \<and> \<not> list_ex is_probe (trace_of (api_status (instrument sb) (start s)))"
  using assms
  by (simp add: api_status_run instrument_ops observers outcome_of_def is_probe_def)

theorem status_not_running_without_probe_witness:
  "findExistingMoltbotProcess ref_sandbox fresh_state = (Inr None, fresh_state)
   \<and> response_of (api_status (instrument ref_sandbox) (start fresh_state)) =
           Inr (c_json [(''ok'', JBool False), (''status'', JStr ''not_running'')])
   \<and> trace_of (api_status (instrument ref_sandbox) (start fresh_state)) =
           [Issued FindExistingMoltbotProcess,
            Settled FindExistingMoltbotProcess (Resolved (RFound None))]"
proof -
  have found: "findExistingMoltbotProcess ref_sandbox fresh_state = (Inr None, fresh_state)"
    by (simp add: ref_ops fresh_state_def)
  from status_not_running_without_probe [OF found] found show ?thesis by simp
qed

text \<open>
  Claim C6. When a gateway process is found and the wait for port 18789 rejects, with
  whatever thrown value, the status handler returns the response
  \<^verbatim>\<open>{ok: false, status: 'not_responding', processId}\<close>: the result is a response
  (\<open>Inr\<close>), not a thrown value, and the probe was the last call.
\<close>

theorem status_not_responding_is_a_response:
  assumes "findExistingMoltbotProcess sb s = (Inr (Some p), s1)"
    and "waitForPort sb p 18789 \<lparr>mode = ''tcp'', timeout = 5000\<rparr> s1 = (Inl e, s2)"
  shows "response_of (api_status (instrument sb) (start s)) =
           Inr (c_json [(''ok'', JBool False), (''status'', JStr ''not_responding''),
                        (''processId'', JStr (pid p))])
         \<and> trace_of (api_status (instrument sb) (start s)) =
           [Issued FindExistingMoltbotProcess,
            Settled FindExistingMoltbotProcess (Resolved (RFound (Some p))),
            Issued (WaitForPort p 18789 \<lparr>mode = ''tcp'', timeout = 5000\<rparr>),
            Settled (WaitForPort p 18789 \<lparr>mode = ''tcp'', timeout = 5000\<rparr>) (Rejected e)]
         \<and> final_of (api_status (instrument sb) (start s)) = s2"
  using assms
  by (simp add: api_status_run instrument_ops observers outcome_of_def port_options_def)

theorem status_not_responding_is_a_response_witness:
  "findExistingMoltbotProcess ref_sandbox stuck_state = (Inr (Some gateway_process), stuck_state)
   \<and> waitForPort ref_sandbox gateway_process 18789 \<lparr>mode = ''tcp'', timeout = 5000\<rparr> stuck_state
       = (Inl (JsError ''timeout waiting for port''), stuck_state)
   \<and> response_of (api_status (instrument ref_sandbox) (start stuck_state)) =
           Inr (c_json [(''ok'', JBool False), (''status'', JStr ''not_responding''),
                        (''processId'', JStr ''proc_gw'')])"
proof -
  have found: "findExistingMoltbotProcess ref_sandbox stuck_state
                 = (Inr (Some gateway_process), stuck_state)"
    by (simp add: ref_ops stuck_state_def populated_state_def)
  have timed_out:
    "waitForPort ref_sandbox gateway_process 18789 \<lparr>mode = ''tcp'', timeout = 5000\<rparr> stuck_state
       = (Inl (JsError ''timeout waiting for port''), stuck_state)"
    by (simp add: ref_ops stuck_state_def populated_state_def)
  from status_not_responding_is_a_response [OF found timed_out] found timed_out
  show ?thesis by (simp add: gateway_process_def)
qed

section \<open>The factory reset: order and failures\<close>

lemma trace_part_001:
  "trace_of (reset_factory_defaults_part_001 (instrument sb) (start s)) =
     [Issued (StartProcess wipe_local_cmd),
      Settled (StartProcess wipe_local_cmd)
        (outcome_of RProcess (fst (startProcess sb wipe_local_cmd s))),
      Issued (StartProcess wipe_backup_cmd),
      Settled (StartProcess wipe_backup_cmd)
        (outcome_of RProcess
          (fst (startProcess sb wipe_backup_cmd (snd (startProcess sb wipe_local_cmd s))))),
      Issued KillAllMoltbotProcesses,
      Settled KillAllMoltbotProcesses
        (outcome_of (\<lambda>_. RUnit)
          (fst (killAllMoltbotProcesses sb
             (snd (startProcess sb wipe_backup_cmd (snd (startProcess sb wipe_local_cmd s)))))))]"
  by (simp add: reset_part_001_run instrument_ops observers split: prod.splits)

lemma trace_part_000_head:
  "\<exists>out tr. trace_of (reset_factory_defaults_part_000 (instrument sb) (start s)) =
     Issued KillAllMoltbotProcesses # Settled KillAllMoltbotProcesses out # tr"
  by (simp add: reset_part_000_run instrument_ops observers split: prod.splits sum.splits)

lemma wipes_before_kill_part_001:
  "wipes_before_kill (trace_of (reset_factory_defaults_part_001 (instrument sb) (start s)))"
  by (simp add: trace_part_001 wipes_before_kill_def)

text \<open>
  Claim C1, as amended. In the handler of \<^verbatim>\<open>src/unnamed/part_001\<close> every execution
  issues and awaits the local wipe, then the backup wipe, and only then issues the kill:
  no kill is issued before both wipe commands have settled. The handler of
  \<^verbatim>\<open>src/unnamed/part_000\<close> does the opposite in every execution: the kill is the first
  call it issues. A wipe has settled when the awaited \<^verbatim>\<open>startProcess\<close> call has
  resolved or rejected.
\<close>

theorem reset_order_of_the_two_handlers:
  "(\<exists>o1 o2 o3.
      trace_of (reset_factory_defaults_part_001 (instrument sb) (start s)) =
        [Issued (StartProcess wipe_local_cmd), Settled (StartProcess wipe_local_cmd) o1,
         Issued (StartProcess wipe_backup_cmd), Settled (StartProcess wipe_backup_cmd) o2,
         Issued KillAllMoltbotProcesses, Settled KillAllMoltbotProcesses o3])
   \<and> wipes_before_kill (trace_of (reset_factory_defaults_part_001 (instrument sb) (start s)))
   \<and> (\<exists>out tr.
      trace_of (reset_factory_defaults_part_000 (instrument sb) (start s)) =
        Issued KillAllMoltbotProcesses # Settled KillAllMoltbotProcesses out # tr)
   \<and> \<not> wipes_before_kill (trace_of (reset_factory_defaults_part_000 (instrument sb) (start s)))"
proof -
  obtain out tr where t0:
    "trace_of (reset_factory_defaults_part_000 (instrument sb) (start s)) =
       Issued KillAllMoltbotProcesses # Settled KillAllMoltbotProcesses out # tr"
    using trace_part_000_head [of sb s] by (elim exE)
  have late: "\<not> wipes_before_kill (trace_of (reset_factory_defaults_part_000 (instrument sb) (start s)))"
    by (simp add: t0 wipes_before_kill_def)
  have early: "\<exists>o1 o2 o3.
      trace_of (reset_factory_defaults_part_001 (instrument sb) (start s)) =
        [Issued (StartProcess wipe_local_cmd), Settled (StartProcess wipe_local_cmd) o1,
         Issued (StartProcess wipe_backup_cmd), Settled (StartProcess wipe_backup_cmd) o2,
         Issued KillAllMoltbotProcesses, Settled KillAllMoltbotProcesses o3]"
    by (simp add: trace_part_001)
  show ?thesis
    by (intro conjI early wipes_before_kill_part_001 trace_part_000_head late)
qed

text \<open>
  The theorem of claim C1 at the reference sandbox with stored state and a running gateway.
\<close>

theorem reset_order_of_the_two_handlers_witness:
  "wipes_before_kill (trace_of (reset_factory_defaults_part_001 (instrument ref_sandbox) (start populated_state)))
   \<and> issued_calls (trace_of (reset_factory_defaults_part_001 (instrument ref_sandbox) (start populated_state)))
       = [StartProcess wipe_local_cmd, StartProcess wipe_backup_cmd, KillAllMoltbotProcesses]"
  using reset_order_of_the_two_handlers [of ref_sandbox populated_state]
  by auto

text \<open>
  Claim C1 as stated fails on the handler of \<^verbatim>\<open>src/unnamed/part_000\<close>: on the reference
  sandbox it issues the kill, then the two wipes, and the monitor refuses the trace.
\<close>

theorem reset_part_000_kills_first:
  "issued_calls (trace_of (reset_factory_defaults_part_000 (instrument ref_sandbox) (start populated_state)))
     = [KillAllMoltbotProcesses, StartProcess wipe_local_cmd, StartProcess wipe_backup_cmd]
   \<and> \<not> wipes_before_kill
         (trace_of (reset_factory_defaults_part_000 (instrument ref_sandbox) (start populated_state)))"
  by (simp add: reset_part_000_run instrument_ops observers ref_ops populated_state_def
      outcome_of_def wipes_before_kill_def)

lemma wipe_cmds_differ: "wipe_backup_cmd \<noteq> wipe_local_cmd" "wipe_local_cmd \<noteq> wipe_backup_cmd"
  by (simp_all add: wipe_backup_cmd_def wipe_local_cmd_def)

lemma response_part_001:
  "response_of (reset_factory_defaults_part_001 (instrument sb) (start s)) =
     Inr (case fst (killAllMoltbotProcesses sb
                 (snd (startProcess sb wipe_backup_cmd (snd (startProcess sb wipe_local_cmd s)))))
          of Inr u \<Rightarrow> reset_ok | Inl e \<Rightarrow> reset_failed e)"
  by (simp add: reset_part_001_run instrument_ops observers split: prod.splits)

lemma console_part_001:
  "console (snd (reset_factory_defaults_part_001 (instrument sb) (start s))) =
     [Log ''[RESET] Initiating factory reset...'',
      (case fst (startProcess sb wipe_local_cmd s) of
         Inr p \<Rightarrow> Log ''[RESET] Local config wiped''
       | Inl e \<Rightarrow> ErrorLog ''[RESET] Failed to wipe local config:'' e),
      (case fst (startProcess sb wipe_backup_cmd (snd (startProcess sb wipe_local_cmd s))) of
         Inr p \<Rightarrow> Log ''[RESET] R2 backup wiped (attempted)''
       | Inl e \<Rightarrow> ErrorLog ''[RESET] Failed to wipe R2 backup:'' e),
      (case fst (killAllMoltbotProcesses sb
                 (snd (startProcess sb wipe_backup_cmd (snd (startProcess sb wipe_local_cmd s))))) of
         Inr u \<Rightarrow> Log ''[RESET] Processes killed''
       | Inl e \<Rightarrow> ErrorLog ''[RESET] Failed:'' e)]"
  by (simp add: reset_part_001_run instrument_ops observers split: prod.splits)

text \<open>
  Claim C2, as amended. Every execution of the handler of \<^verbatim>\<open>src/unnamed/part_001\<close>
  attempts the three phases in order, whatever the outcome of an earlier one. A wipe that
  rejects is caught at its own boundary: it is written to the console and has no effect
  on the response. The kill has no boundary of its own: when it rejects, the outer catch
  writes it to the console and the response is \<^verbatim>\<open>{status: 'error', message}\<close> with
  code 500; when it resolves the response is the \<open>ok\<close> one.
\<close>

theorem reset_phases_all_attempted:
  "\<exists>o1 o2 o3.
     trace_of (reset_factory_defaults_part_001 (instrument sb) (start s)) =
       [Issued (StartProcess wipe_local_cmd), Settled (StartProcess wipe_local_cmd) o1,
        Issued (StartProcess wipe_backup_cmd), Settled (StartProcess wipe_backup_cmd) o2,
        Issued KillAllMoltbotProcesses, Settled KillAllMoltbotProcesses o3]
     \<and> response_of (reset_factory_defaults_part_001 (instrument sb) (start s)) =
         Inr (case o3 of Resolved u \<Rightarrow> reset_ok | Rejected e \<Rightarrow> reset_failed e)
     \<and> console (snd (reset_factory_defaults_part_001 (instrument sb) (start s))) =
         [Log ''[RESET] Initiating factory reset...'',
          (case o1 of Resolved p \<Rightarrow> Log ''[RESET] Local config wiped''
           | Rejected e \<Rightarrow> ErrorLog ''[RESET] Failed to wipe local config:'' e),
          (case o2 of Resolved p \<Rightarrow> Log ''[RESET] R2 backup wiped (attempted)''
           | Rejected e \<Rightarrow> ErrorLog ''[RESET] Failed to wipe R2 backup:'' e),
          (case o3 of Resolved u \<Rightarrow> Log ''[RESET] Processes killed''
           | Rejected e \<Rightarrow> ErrorLog ''[RESET] Failed:'' e)]"
proof -
  define r1 where "r1 = fst (startProcess sb wipe_local_cmd s)"
  define r2 where
    "r2 = fst (startProcess sb wipe_backup_cmd (snd (startProcess sb wipe_local_cmd s)))"
  define r3 where
    "r3 = fst (killAllMoltbotProcesses sb
            (snd (startProcess sb wipe_backup_cmd (snd (startProcess sb wipe_local_cmd s)))))"
  have "response_of (reset_factory_defaults_part_001 (instrument sb) (start s)) =
          Inr (case outcome_of (\<lambda>_. RUnit) r3 of
                 Resolved u \<Rightarrow> reset_ok | Rejected e \<Rightarrow> reset_failed e)"
    unfolding response_part_001 r3_def [symmetric]
    by (cases r3) (simp_all add: outcome_of_def)
  moreover
  have "console (snd (reset_factory_defaults_part_001 (instrument sb) (start s))) =
         [Log ''[RESET] Initiating factory reset...'',
          (case outcome_of RProcess r1 of Resolved p \<Rightarrow> Log ''[RESET] Local config wiped''
           | Rejected e \<Rightarrow> ErrorLog ''[RESET] Failed to wipe local config:'' e),
          (case outcome_of RProcess r2 of Resolved p \<Rightarrow> Log ''[RESET] R2 backup wiped (attempted)''
           | Rejected e \<Rightarrow> ErrorLog ''[RESET] Failed to wipe R2 backup:'' e),
          (case outcome_of (\<lambda>_. RUnit) r3 of Resolved u \<Rightarrow> Log ''[RESET] Processes killed''
           | Rejected e \<Rightarrow> ErrorLog ''[RESET] Failed:'' e)]"
    unfolding console_part_001 r1_def [symmetric] r2_def [symmetric] r3_def [symmetric]
    by (cases r1; cases r2; cases r3) (simp_all add: outcome_of_def)
  moreover
  have "trace_of (reset_factory_defaults_part_001 (instrument sb) (start s)) =
       [Issued (StartProcess wipe_local_cmd),
        Settled (StartProcess wipe_local_cmd) (outcome_of RProcess r1),
        Issued (StartProcess wipe_backup_cmd),
        Settled (StartProcess wipe_backup_cmd) (outcome_of RProcess r2),
        Issued KillAllMoltbotProcesses,
        Settled KillAllMoltbotProcesses (outcome_of (\<lambda>_. RUnit) r3)]"
    unfolding trace_part_001 r1_def r2_def r3_def by (rule refl)
  ultimately show ?thesis by (intro exI conjI)
qed


text \<open>
  The theorem of claim C2 where the local wipe fails and the other two phases succeed:
  all three calls are issued, one is rejected, and the response is the \<open>ok\<close> one.
\<close>

theorem reset_phases_all_attempted_witness:
  "issued_calls (trace_of (reset_factory_defaults_part_001 (instrument ref_sandbox) (start wipe_local_fails_state)))
     = [StartProcess wipe_local_cmd, StartProcess wipe_backup_cmd, KillAllMoltbotProcesses]
   \<and> list_ex is_rejected
       (trace_of (reset_factory_defaults_part_001 (instrument ref_sandbox) (start wipe_local_fails_state)))
   \<and> response_of (reset_factory_defaults_part_001 (instrument ref_sandbox) (start wipe_local_fails_state))
     = Inr reset_ok"
proof -
  have rejected: "list_ex is_rejected
       (trace_of (reset_factory_defaults_part_001 (instrument ref_sandbox) (start wipe_local_fails_state)))"
    by (simp add: trace_part_001 ref_ops wipe_local_fails_state_def populated_state_def
        outcome_of_def is_rejected_def)
  have ok: "response_of (reset_factory_defaults_part_001 (instrument ref_sandbox) (start wipe_local_fails_state))
     = Inr reset_ok"
    by (simp add: response_part_001 ref_ops wipe_local_fails_state_def populated_state_def
        wipe_cmds_differ)
  from reset_phases_all_attempted [of ref_sandbox wipe_local_fails_state] rejected ok
  show ?thesis by auto
qed

text \<open>
  Claim C2 as stated fails when the kill is the single phase that fails: both wipes
  resolve, the kill rejects, and the response is the error one with code 500.
\<close>

theorem reset_kill_failure_is_an_error:
  "trace_of (reset_factory_defaults_part_001 (instrument ref_sandbox) (start kill_fails_state)) =
     [Issued (StartProcess wipe_local_cmd),
      Settled (StartProcess wipe_local_cmd)
        (Resolved (RProcess \<lparr>pid = ''proc_0'', command = wipe_local_cmd\<rparr>)),
      Issued (StartProcess wipe_backup_cmd),
      Settled (StartProcess wipe_backup_cmd)
        (Resolved (RProcess \<lparr>pid = ''proc_1'', command = wipe_backup_cmd\<rparr>)),
      Issued KillAllMoltbotProcesses,
      Settled KillAllMoltbotProcesses (Rejected (JsError ''kill failed''))]
   \<and> response_of (reset_factory_defaults_part_001 (instrument ref_sandbox) (start kill_fails_state))
     = Inr \<lparr>code = 500,
            body = [(''status'', JStr ''error''), (''message'', JStr ''kill failed'')]\<rparr>"
  by (simp add: trace_part_001 response_part_001 ref_ops kill_fails_state_def populated_state_def
      string_of_nat.simps
      outcome_of_def reset_failed_def c_json_status_def error_message_def)

lemma part_000_cases:
  "(\<exists>e. trace_of (reset_factory_defaults_part_000 (instrument sb) (start s)) =
          [Issued KillAllMoltbotProcesses, Settled KillAllMoltbotProcesses (Rejected e)]
        \<and> response_of (reset_factory_defaults_part_000 (instrument sb) (start s)) =
          Inr (reset_failed e))
   \<or> (\<exists>e. trace_of (reset_factory_defaults_part_000 (instrument sb) (start s)) =
          [Issued KillAllMoltbotProcesses, Settled KillAllMoltbotProcesses (Resolved RUnit),
           Issued (StartProcess wipe_local_cmd),
           Settled (StartProcess wipe_local_cmd) (Rejected e)]
        \<and> response_of (reset_factory_defaults_part_000 (instrument sb) (start s)) =
          Inr (reset_failed e))
   \<or> (\<exists>p1 e. trace_of (reset_factory_defaults_part_000 (instrument sb) (start s)) =
          [Issued KillAllMoltbotProcesses, Settled KillAllMoltbotProcesses (Resolved RUnit),
           Issued (StartProcess wipe_local_cmd),
           Settled (StartProcess wipe_local_cmd) (Resolved (RProcess p1)),
           Issued (StartProcess wipe_backup_cmd),
           Settled (StartProcess wipe_backup_cmd) (Rejected e)]
        \<and> response_of (reset_factory_defaults_part_000 (instrument sb) (start s)) =
          Inr (reset_failed e))
   \<or> (\<exists>p1 p2. trace_of (reset_factory_defaults_part_000 (instrument sb) (start s)) =
          [Issued KillAllMoltbotProcesses, Settled KillAllMoltbotProcesses (Resolved RUnit),
           Issued (StartProcess wipe_local_cmd),
           Settled (StartProcess wipe_local_cmd) (Resolved (RProcess p1)),
           Issued (StartProcess wipe_backup_cmd),
           Settled (StartProcess wipe_backup_cmd) (Resolved (RProcess p2))]
        \<and> response_of (reset_factory_defaults_part_000 (instrument sb) (start s)) =
          Inr reset_ok)"
proof -
  define k where "k = killAllMoltbotProcesses sb s"
  define r1 where "r1 = startProcess sb wipe_local_cmd (snd k)"
  define r2 where "r2 = startProcess sb wipe_backup_cmd (snd r1)"
  have run: "reset_factory_defaults_part_000 (instrument sb) (start s) =
    (case fst k of
       Inl e \<Rightarrow> (Inr (reset_failed e),
         \<lparr>sbx = (snd k, [Issued KillAllMoltbotProcesses, Settled KillAllMoltbotProcesses (Rejected e)]),
          console = [Log ''[RESET] Initiating factory reset...'', ErrorLog ''[RESET] Failed:'' e]\<rparr>)
     | Inr u \<Rightarrow>
      (case fst r1 of
         Inl e \<Rightarrow> (Inr (reset_failed e),
           \<lparr>sbx = (snd r1, [Issued KillAllMoltbotProcesses, Settled KillAllMoltbotProcesses (Resolved RUnit),
                   Issued (StartProcess wipe_local_cmd), Settled (StartProcess wipe_local_cmd) (Rejected e)]),
            console = [Log ''[RESET] Initiating factory reset...'', Log ''[RESET] Processes killed'',
                    ErrorLog ''[RESET] Failed:'' e]\<rparr>)
       | Inr p1 \<Rightarrow>
        (case fst r2 of
           Inl e \<Rightarrow> (Inr (reset_failed e),
             \<lparr>sbx = (snd r2, [Issued KillAllMoltbotProcesses, Settled KillAllMoltbotProcesses (Resolved RUnit),
                   Issued (StartProcess wipe_local_cmd), Settled (StartProcess wipe_local_cmd) (Resolved (RProcess p1)),
                   Issued (StartProcess wipe_backup_cmd), Settled (StartProcess wipe_backup_cmd) (Rejected e)]),
              console = [Log ''[RESET] Initiating factory reset...'',
                         Log ''[RESET] Processes killed'', Log ''[RESET] Local config wiped'',
                         ErrorLog ''[RESET] Failed:'' e]\<rparr>)
         | Inr p2 \<Rightarrow> (Inr reset_ok,
             \<lparr>sbx = (snd r2, [Issued KillAllMoltbotProcesses, Settled KillAllMoltbotProcesses (Resolved RUnit),
                   Issued (StartProcess wipe_local_cmd), Settled (StartProcess wipe_local_cmd) (Resolved (RProcess p1)),
                   Issued (StartProcess wipe_backup_cmd), Settled (StartProcess wipe_backup_cmd) (Resolved (RProcess p2))]),
              console = [Log ''[RESET] Initiating factory reset...'',
                         Log ''[RESET] Processes killed'', Log ''[RESET] Local config wiped'',
                         Log ''[RESET] R2 backup wiped (attempted)'']\<rparr>))))"
    unfolding k_def r1_def r2_def
    by (simp add: reset_part_000_run instrument_ops start_def outcome_of_def
        split: prod.splits sum.splits)
  show ?thesis
    unfolding run
    by (cases "fst k"; cases "fst r1"; cases "fst r2") (simp_all add: observers)
qed


text \<open>
  Claim C10, as amended. The two handlers issue the same three sandbox operations, each at
  most once, but not in the same order and not with the same treatment of failures. The
  handler of \<^verbatim>\<open>part_001\<close> always issues wipe-local, wipe-backup, kill. The handler of
  \<^verbatim>\<open>part_000\<close> issues kill, wipe-local, wipe-backup and stops at the first call that
  rejects, answering with the error response for that rejection; when none of its calls
  rejects it answers \<open>ok\<close>. The handler of \<^verbatim>\<open>part_001\<close> answers \<open>ok\<close> unless the kill
  rejects, and then with the error response for the kill.
\<close>

theorem reset_handlers_agree_only_without_failures:
  "issued_calls (trace_of (reset_factory_defaults_part_001 (instrument sb) (start s)))
     = [StartProcess wipe_local_cmd, StartProcess wipe_backup_cmd, KillAllMoltbotProcesses]
   \<and> prefix (issued_calls (trace_of (reset_factory_defaults_part_000 (instrument sb) (start s))))
        [KillAllMoltbotProcesses, StartProcess wipe_local_cmd, StartProcess wipe_backup_cmd]
   \<and> (\<not> list_ex is_rejected (trace_of (reset_factory_defaults_part_000 (instrument sb) (start s)))
        \<longrightarrow> issued_calls (trace_of (reset_factory_defaults_part_000 (instrument sb) (start s)))
              = [KillAllMoltbotProcesses, StartProcess wipe_local_cmd, StartProcess wipe_backup_cmd]
            \<and> response_of (reset_factory_defaults_part_000 (instrument sb) (start s)) = Inr reset_ok)
   \<and> (list_ex is_rejected (trace_of (reset_factory_defaults_part_000 (instrument sb) (start s)))
        \<longrightarrow> (\<exists>c e. last (trace_of (reset_factory_defaults_part_000 (instrument sb) (start s)))
                      = Settled c (Rejected e)
                  \<and> response_of (reset_factory_defaults_part_000 (instrument sb) (start s))
                      = Inr (reset_failed e)))
   \<and> (\<not> is_rejected (last (trace_of (reset_factory_defaults_part_001 (instrument sb) (start s))))
        \<longrightarrow> response_of (reset_factory_defaults_part_001 (instrument sb) (start s)) = Inr reset_ok)
   \<and> (is_rejected (last (trace_of (reset_factory_defaults_part_001 (instrument sb) (start s))))
        \<longrightarrow> (\<exists>e. last (trace_of (reset_factory_defaults_part_001 (instrument sb) (start s)))
                      = Settled KillAllMoltbotProcesses (Rejected e)
                \<and> response_of (reset_factory_defaults_part_001 (instrument sb) (start s))
                      = Inr (reset_failed e)))"
proof -
  define r3 where
    "r3 = fst (killAllMoltbotProcesses sb
            (snd (startProcess sb wipe_backup_cmd (snd (startProcess sb wipe_local_cmd s)))))"
  have new_calls:
    "issued_calls (trace_of (reset_factory_defaults_part_001 (instrument sb) (start s)))
       = [StartProcess wipe_local_cmd, StartProcess wipe_backup_cmd, KillAllMoltbotProcesses]"
    by (simp add: trace_part_001)
  have new_last:
    "last (trace_of (reset_factory_defaults_part_001 (instrument sb) (start s)))
       = Settled KillAllMoltbotProcesses (outcome_of (\<lambda>_. RUnit) r3)"
    by (simp add: trace_part_001 r3_def)
  have new_response:
    "response_of (reset_factory_defaults_part_001 (instrument sb) (start s))
       = Inr (case r3 of Inr u \<Rightarrow> reset_ok | Inl e \<Rightarrow> reset_failed e)"
    by (simp add: response_part_001 r3_def)
  have new_ok:
    "\<not> is_rejected (last (trace_of (reset_factory_defaults_part_001 (instrument sb) (start s))))
       \<longrightarrow> response_of (reset_factory_defaults_part_001 (instrument sb) (start s)) = Inr reset_ok"
    unfolding new_last new_response
    by (cases r3) (simp_all add: is_rejected_def outcome_of_def)
  have new_failed:
    "is_rejected (last (trace_of (reset_factory_defaults_part_001 (instrument sb) (start s))))
       \<longrightarrow> (\<exists>e. last (trace_of (reset_factory_defaults_part_001 (instrument sb) (start s)))
                      = Settled KillAllMoltbotProcesses (Rejected e)
                \<and> response_of (reset_factory_defaults_part_001 (instrument sb) (start s))
                      = Inr (reset_failed e))"
    unfolding new_last new_response
    by (cases r3) (simp_all add: is_rejected_def outcome_of_def)
  have old:
    "prefix (issued_calls (trace_of (reset_factory_defaults_part_000 (instrument sb) (start s))))
        [KillAllMoltbotProcesses, StartProcess wipe_local_cmd, StartProcess wipe_backup_cmd]
     \<and> (\<not> list_ex is_rejected (trace_of (reset_factory_defaults_part_000 (instrument sb) (start s)))
        \<longrightarrow> issued_calls (trace_of (reset_factory_defaults_part_000 (instrument sb) (start s)))
              = [KillAllMoltbotProcesses, StartProcess wipe_local_cmd, StartProcess wipe_backup_cmd]
            \<and> response_of (reset_factory_defaults_part_000 (instrument sb) (start s)) = Inr reset_ok)
     \<and> (list_ex is_rejected (trace_of (reset_factory_defaults_part_000 (instrument sb) (start s)))
        \<longrightarrow> (\<exists>c e. last (trace_of (reset_factory_defaults_part_000 (instrument sb) (start s)))
                      = Settled c (Rejected e)
                  \<and> response_of (reset_factory_defaults_part_000 (instrument sb) (start s))
                      = Inr (reset_failed e)))"
    using part_000_cases [of sb s]
    by (elim disjE exE conjE) (simp_all add: is_rejected_def)
  from new_calls old new_ok new_failed show ?thesis by (intro conjI) simp_all
qed


lemma part_000_on_populated_state:
  "trace_of (reset_factory_defaults_part_000 (instrument ref_sandbox) (start populated_state)) =
     [Issued KillAllMoltbotProcesses, Settled KillAllMoltbotProcesses (Resolved RUnit),
      Issued (StartProcess wipe_local_cmd),
      Settled (StartProcess wipe_local_cmd)
        (Resolved (RProcess \<lparr>pid = ''proc_0'', command = wipe_local_cmd\<rparr>)),
      Issued (StartProcess wipe_backup_cmd),
      Settled (StartProcess wipe_backup_cmd)
        (Resolved (RProcess \<lparr>pid = ''proc_1'', command = wipe_backup_cmd\<rparr>))]"
  by (simp add: reset_part_000_run instrument_ops observers ref_ops populated_state_def
      outcome_of_def string_of_nat.simps)

lemma part_000_on_kill_fails_state:
  "trace_of (reset_factory_defaults_part_000 (instrument ref_sandbox) (start kill_fails_state)) =
     [Issued KillAllMoltbotProcesses,
      Settled KillAllMoltbotProcesses (Rejected (JsError ''kill failed''))]"
  by (simp add: reset_part_000_run instrument_ops observers ref_ops kill_fails_state_def
      populated_state_def outcome_of_def)

text \<open>
  The theorem of claim C10 on a run without failures and on a run whose kill fails.
\<close>

theorem reset_handlers_agree_only_without_failures_witness:
  "\<not> list_ex is_rejected
       (trace_of (reset_factory_defaults_part_000 (instrument ref_sandbox) (start populated_state)))
   \<and> response_of (reset_factory_defaults_part_000 (instrument ref_sandbox) (start populated_state))
       = Inr reset_ok
   \<and> response_of (reset_factory_defaults_part_001 (instrument ref_sandbox) (start populated_state))
       = Inr reset_ok
   \<and> list_ex is_rejected
       (trace_of (reset_factory_defaults_part_000 (instrument ref_sandbox) (start kill_fails_state)))
   \<and> response_of (reset_factory_defaults_part_000 (instrument ref_sandbox) (start kill_fails_state))
       = Inr (reset_failed (JsError ''kill failed''))
   \<and> response_of (reset_factory_defaults_part_001 (instrument ref_sandbox) (start kill_fails_state))
       = Inr (reset_failed (JsError ''kill failed''))"
proof -
  have quiet: "\<not> list_ex is_rejected
       (trace_of (reset_factory_defaults_part_000 (instrument ref_sandbox) (start populated_state)))"
    by (simp add: part_000_on_populated_state is_rejected_def)
  have quiet_new: "\<not> is_rejected (last
       (trace_of (reset_factory_defaults_part_001 (instrument ref_sandbox) (start populated_state))))"
    by (simp add: trace_part_001 ref_ops populated_state_def outcome_of_def is_rejected_def)
  have loud: "list_ex is_rejected
       (trace_of (reset_factory_defaults_part_000 (instrument ref_sandbox) (start kill_fails_state)))"
    by (simp add: part_000_on_kill_fails_state is_rejected_def)
  have loud_new: "is_rejected (last
       (trace_of (reset_factory_defaults_part_001 (instrument ref_sandbox) (start kill_fails_state))))"
    by (simp add: trace_part_001 ref_ops kill_fails_state_def populated_state_def outcome_of_def
        is_rejected_def)
  have last_old: "last
       (trace_of (reset_factory_defaults_part_000 (instrument ref_sandbox) (start kill_fails_state)))
       = Settled KillAllMoltbotProcesses (Rejected (JsError ''kill failed''))"
    by (simp add: part_000_on_kill_fails_state)
  have last_new: "last
       (trace_of (reset_factory_defaults_part_001 (instrument ref_sandbox) (start kill_fails_state)))
       = Settled KillAllMoltbotProcesses (Rejected (JsError ''kill failed''))"
    by (simp add: trace_part_001 ref_ops kill_fails_state_def populated_state_def outcome_of_def)
  from reset_handlers_agree_only_without_failures [of ref_sandbox populated_state]
       reset_handlers_agree_only_without_failures [of ref_sandbox kill_fails_state]
       quiet quiet_new loud loud_new last_old last_new
  show ?thesis by auto
qed

text \<open>
  Claim C10 as stated fails: on the same sandbox the two handlers issue their calls in a
  different order, and when the local wipe fails the handler of \<^verbatim>\<open>part_000\<close> answers
  with the error response while the handler of \<^verbatim>\<open>part_001\<close> answers \<open>ok\<close>.
\<close>

theorem reset_handlers_differ:
  "issued_calls (trace_of (reset_factory_defaults_part_000 (instrument ref_sandbox) (start populated_state)))
     \<noteq> issued_calls (trace_of (reset_factory_defaults_part_001 (instrument ref_sandbox) (start populated_state)))
   \<and> response_of (reset_factory_defaults_part_000 (instrument ref_sandbox) (start wipe_local_fails_state))
     = Inr \<lparr>code = 500,
            body = [(''status'', JStr ''error''), (''message'', JStr ''startProcess failed'')]\<rparr>
   \<and> response_of (reset_factory_defaults_part_001 (instrument ref_sandbox) (start wipe_local_fails_state))
     = Inr \<lparr>code = 200,
            body = [(''status'', JStr ''ok''),
                    (''message'', JStr ''Factory reset initiated. Gateway will restart and onboard freshly on next request.'')]\<rparr>"
proof -
  have calls: "issued_calls (trace_of (reset_factory_defaults_part_000 (instrument ref_sandbox) (start populated_state)))
     \<noteq> issued_calls (trace_of (reset_factory_defaults_part_001 (instrument ref_sandbox) (start populated_state)))"
    by (simp add: part_000_on_populated_state trace_part_001)
  have old: "response_of (reset_factory_defaults_part_000 (instrument ref_sandbox) (start wipe_local_fails_state))
     = Inr (reset_failed (JsError ''startProcess failed''))"
    by (simp add: reset_part_000_run instrument_ops observers ref_ops wipe_local_fails_state_def
        populated_state_def)
  have new: "response_of (reset_factory_defaults_part_001 (instrument ref_sandbox) (start wipe_local_fails_state))
     = Inr reset_ok"
    by (simp add: response_part_001 ref_ops wipe_local_fails_state_def populated_state_def
        wipe_cmds_differ)
  show ?thesis
    unfolding old new by (simp add: calls reset_failed_def reset_ok_def c_json_def c_json_status_def
        error_message_def)
qed

section \<open>The diagnose handler\<close>

lemma diagnose_token_only_in_flag:
  "without_field ''envConfig'' (fst (diagnose env sb w)) =
   without_field ''envConfig'' (fst (diagnose env' sb w))
   \<and> snd (diagnose env sb w) = snd (diagnose env' sb w)"
  by (simp add: diagnose_run without_field_def snapshot_def diagnose_failed_def c_json_def
      c_json_status_def split: prod.splits sum.splits)

lemma diagnose_depends_on_presence:
  "truthy (MOLTBOT_GATEWAY_TOKEN env) = truthy (MOLTBOT_GATEWAY_TOKEN env')
   \<Longrightarrow> diagnose env sb w = diagnose env' sb w"
  by (simp add: diagnose_run snapshot_def token_flag_def split: prod.splits sum.splits)

lemma diagnose_strings_come_from_sandbox:
  "set (response_strings (response_of (diagnose env (instrument sb) (start s))))
   \<subseteq> set (sandbox_strings (trace_of (diagnose env (instrument sb) (start s))))
     \<union> {''Has TOKEN env'', ''No TOKEN env''}"
  by (auto simp add: diagnose_run instrument_ops observers outcome_of_def response_strings_def
      snapshot_def diagnose_failed_def c_json_def c_json_status_def token_flag_def
      split: sum.splits)

lemma diagnose_relays_sandbox_output:
  "\<not> list_ex is_rejected (trace_of (diagnose env (instrument sb) (start s)))
   \<and> list_ex (sublist tok) (sandbox_strings (trace_of (diagnose env (instrument sb) (start s))))
   \<longrightarrow> mentions tok (response_of (diagnose env (instrument sb) (start s)))"
  by (auto simp add: diagnose_run instrument_ops observers outcome_of_def is_rejected_def
      mentions_def response_strings_def snapshot_def c_json_def split: sum.splits)

lemma diagnose_cmds_differ:
  "cat_config_cmd \<noteq> env_cmd" "ls_backup_cmd \<noteq> env_cmd" "ls_local_cmd \<noteq> env_cmd"
  "env_cmd \<noteq> cat_config_cmd" "ls_backup_cmd \<noteq> cat_config_cmd" "ls_local_cmd \<noteq> cat_config_cmd"
  by (simp_all add: cat_config_cmd_def env_cmd_def ls_backup_cmd_def ls_local_cmd_def)

lemma diagnose_on_leaky_state:
  "response_of (diagnose \<lparr>MOLTBOT_GATEWAY_TOKEN = Some ''s3cr3t''\<rparr> (instrument ref_sandbox)
      (start leaky_state)) =
     Inr \<lparr>code = 200,
          body = [(''config'', JStr []), (''env'', JStr ''MOLTBOT_GATEWAY_TOKEN=s3cr3t''),
                  (''lsR2'', JStr []), (''lsLocal'', JStr []),
                  (''envConfig'', JStr ''Has TOKEN env'')]\<rparr>"
  by (simp add: diagnose_run instrument_ops observers ref_ops leaky_state_def populated_state_def
      diagnose_cmds_differ snapshot_def c_json_def token_flag_def truthy_def no_logs_def)

lemma diagnose_full_run:
  "\<not> list_ex is_rejected (trace_of (diagnose env (instrument sb) (start s))) \<longrightarrow>
     (\<exists>p1 l1 p2 l2 p3 l3 p4 l4.
        trace_of (diagnose env (instrument sb) (start s)) =
          [Issued (StartProcess cat_config_cmd),
           Settled (StartProcess cat_config_cmd) (Resolved (RProcess p1)),
           Issued (GetLogs p1), Settled (GetLogs p1) (Resolved (RLogs l1)),
           Issued (StartProcess env_cmd),
           Settled (StartProcess env_cmd) (Resolved (RProcess p2)),
           Issued (GetLogs p2), Settled (GetLogs p2) (Resolved (RLogs l2)),
           Issued (StartProcess ls_backup_cmd),
           Settled (StartProcess ls_backup_cmd) (Resolved (RProcess p3)),
           Issued (GetLogs p3), Settled (GetLogs p3) (Resolved (RLogs l3)),
           Issued (StartProcess ls_local_cmd),
           Settled (StartProcess ls_local_cmd) (Resolved (RProcess p4)),
           Issued (GetLogs p4), Settled (GetLogs p4) (Resolved (RLogs l4))]
        \<and> response_of (diagnose env (instrument sb) (start s)) = Inr (snapshot env l1 l2 l3 l4))"
  by (simp add: diagnose_run instrument_ops observers outcome_of_def is_rejected_def
      split: sum.splits)

lemma diagnose_failed_run:
  "list_ex is_rejected (trace_of (diagnose env (instrument sb) (start s))) \<longrightarrow>
     (\<exists>c e. last (trace_of (diagnose env (instrument sb) (start s))) = Settled c (Rejected e)
        \<and> \<not> list_ex is_rejected (butlast (trace_of (diagnose env (instrument sb) (start s))))
        \<and> response_of (diagnose env (instrument sb) (start s)) = Inr (diagnose_failed e))"
  by (simp add: diagnose_run instrument_ops observers outcome_of_def is_rejected_def
      split: sum.splits)

lemma diagnose_call_order:
  "\<exists>p1 p2 p3 p4.
     prefix (issued_calls (trace_of (diagnose env (instrument sb) (start s))))
       [StartProcess cat_config_cmd, GetLogs p1, StartProcess env_cmd, GetLogs p2,
        StartProcess ls_backup_cmd, GetLogs p3, StartProcess ls_local_cmd, GetLogs p4]"
  by (simp add: diagnose_run instrument_ops observers outcome_of_def
      split: sum.splits)


text \<open>
  Claim C3, as amended. The diagnose handler does not copy the value of
  \<^verbatim>\<open>MOLTBOT_GATEWAY_TOKEN\<close> into its response: two runs on the same sandbox that differ
  only in the token produce responses that are identical apart from the field
  \<^verbatim>\<open>envConfig\<close>, and identical in that field too when the token is present (non-empty) in
  both or in neither. Every string of the response is, unchanged, a standard output that
  the sandbox returned in the run, the message of a thrown value, or one of the two
  presence flags; so the response contains the token's text only where the sandbox's own
  output (or the flag text) contains it. And it does contain it there: when every call
  resolves, a text that one of the returned outputs contains is in the response.
\<close>

theorem diagnose_token_reaches_only_the_flag:
  "without_field ''envConfig'' (fst (diagnose env sb w)) =
     without_field ''envConfig'' (fst (diagnose env' sb w))
   \<and> snd (diagnose env sb w) = snd (diagnose env' sb w)
   \<and> (truthy (MOLTBOT_GATEWAY_TOKEN env) = truthy (MOLTBOT_GATEWAY_TOKEN env')
        \<longrightarrow> diagnose env sb w = diagnose env' sb w)
   \<and> set (response_strings (response_of (diagnose env (instrument sb) (start s))))
       \<subseteq> set (sandbox_strings (trace_of (diagnose env (instrument sb) (start s))))
         \<union> {''Has TOKEN env'', ''No TOKEN env''}
   \<and> (mentions tok (response_of (diagnose env (instrument sb) (start s)))
        \<longrightarrow> list_ex (sublist tok) (sandbox_strings (trace_of (diagnose env (instrument sb) (start s))))
            \<or> sublist tok ''Has TOKEN env'' \<or> sublist tok ''No TOKEN env'')
   \<and> (\<not> list_ex is_rejected (trace_of (diagnose env (instrument sb) (start s)))
        \<and> list_ex (sublist tok) (sandbox_strings (trace_of (diagnose env (instrument sb) (start s))))
        \<longrightarrow> mentions tok (response_of (diagnose env (instrument sb) (start s))))"
proof -
  have relayed:
    "mentions tok (response_of (diagnose env (instrument sb) (start s)))
       \<longrightarrow> list_ex (sublist tok) (sandbox_strings (trace_of (diagnose env (instrument sb) (start s))))
           \<or> sublist tok ''Has TOKEN env'' \<or> sublist tok ''No TOKEN env''"
    using diagnose_strings_come_from_sandbox [of env sb s]
    unfolding mentions_def list_ex_iff by blast
  show ?thesis
    using diagnose_token_only_in_flag [of env sb w env'] diagnose_depends_on_presence [of env env' sb w]
      diagnose_strings_come_from_sandbox [of env sb s] relayed
      diagnose_relays_sandbox_output [of env sb s tok]
    by (intro conjI impI) simp_all
qed

text \<open>
  The theorem of claim C3 for two different non-empty tokens, and on a sandbox whose
  environment dump prints the token.
\<close>

theorem diagnose_token_reaches_only_the_flag_witness:
  "truthy (Some ''s3cr3t'') = truthy (Some ''0ther'')
   \<and> diagnose \<lparr>MOLTBOT_GATEWAY_TOKEN = Some ''s3cr3t''\<rparr> ref_sandbox \<lparr>sbx = populated_state, console = []\<rparr>
     = diagnose \<lparr>MOLTBOT_GATEWAY_TOKEN = Some ''0ther''\<rparr> ref_sandbox \<lparr>sbx = populated_state, console = []\<rparr>
   \<and> mentions ''s3cr3t''
        (response_of (diagnose \<lparr>MOLTBOT_GATEWAY_TOKEN = Some ''s3cr3t''\<rparr> (instrument ref_sandbox)
           (start leaky_state)))
   \<and> list_ex (sublist ''s3cr3t'')
        (sandbox_strings (trace_of (diagnose \<lparr>MOLTBOT_GATEWAY_TOKEN = Some ''s3cr3t''\<rparr>
           (instrument ref_sandbox) (start leaky_state))))"
proof -
  have same: "truthy (MOLTBOT_GATEWAY_TOKEN \<lparr>MOLTBOT_GATEWAY_TOKEN = Some ''s3cr3t''\<rparr>)
            = truthy (MOLTBOT_GATEWAY_TOKEN \<lparr>MOLTBOT_GATEWAY_TOKEN = Some ''0ther''\<rparr>)"
    by (simp add: truthy_def)
  have leak: "mentions ''s3cr3t''
        (response_of (diagnose \<lparr>MOLTBOT_GATEWAY_TOKEN = Some ''s3cr3t''\<rparr> (instrument ref_sandbox)
           (start leaky_state)))"
    by (simp add: diagnose_on_leaky_state mentions_def response_strings_def sublist_Cons_right)
  have flags: "\<not> sublist ''s3cr3t'' ''Has TOKEN env''" "\<not> sublist ''s3cr3t'' ''No TOKEN env''"
    by (simp_all add: sublist_Cons_right)
  from diagnose_token_reaches_only_the_flag
         [of "\<lparr>MOLTBOT_GATEWAY_TOKEN = Some ''s3cr3t''\<rparr>" ref_sandbox
             "\<lparr>sbx = populated_state, console = []\<rparr>"
             "\<lparr>MOLTBOT_GATEWAY_TOKEN = Some ''0ther''\<rparr>" leaky_state "''s3cr3t''"]
       same leak flags
  show ?thesis by (simp add: truthy_def)
qed

text \<open>
  Claim C3 as stated fails: the response carries the output of \<^verbatim>\<open>env\<close> unchanged, so on
  a sandbox whose environment holds the token the snapshot contains its literal value.
\<close>

theorem diagnose_relays_a_token_in_the_env_dump:
  "response_of (diagnose \<lparr>MOLTBOT_GATEWAY_TOKEN = Some ''s3cr3t''\<rparr> (instrument ref_sandbox)
      (start leaky_state)) =
     Inr \<lparr>code = 200,
          body = [(''config'', JStr []), (''env'', JStr ''MOLTBOT_GATEWAY_TOKEN=s3cr3t''),
                  (''lsR2'', JStr []), (''lsLocal'', JStr []),
                  (''envConfig'', JStr ''Has TOKEN env'')]\<rparr>
   \<and> mentions ''s3cr3t''
        (response_of (diagnose \<lparr>MOLTBOT_GATEWAY_TOKEN = Some ''s3cr3t''\<rparr> (instrument ref_sandbox)
           (start leaky_state)))"
  by (simp add: diagnose_on_leaky_state mentions_def response_strings_def sublist_Cons_right)

text \<open>
  Claim C4, as amended. The four reads are made in sequence inside one \<^verbatim>\<open>try\<close> block.
  When every call to the sandbox resolves, whatever the commands print, the eight calls of
  the four reads are all made and the response is the snapshot of the four standard
  outputs. When a call rejects, it is the last call the handler makes: no later read is
  attempted, and the response is \<^verbatim>\<open>{error: message}\<close> with code 500 and no result of
  any read.
\<close>

theorem diagnose_reads_share_one_try_block:
  "(\<not> list_ex is_rejected (trace_of (diagnose env (instrument sb) (start s))) \<longrightarrow>
     (\<exists>p1 l1 p2 l2 p3 l3 p4 l4.
        trace_of (diagnose env (instrument sb) (start s)) =
          [Issued (StartProcess cat_config_cmd),
           Settled (StartProcess cat_config_cmd) (Resolved (RProcess p1)),
           Issued (GetLogs p1), Settled (GetLogs p1) (Resolved (RLogs l1)),
           Issued (StartProcess env_cmd),
           Settled (StartProcess env_cmd) (Resolved (RProcess p2)),
           Issued (GetLogs p2), Settled (GetLogs p2) (Resolved (RLogs l2)),
           Issued (StartProcess ls_backup_cmd),
           Settled (StartProcess ls_backup_cmd) (Resolved (RProcess p3)),
           Issued (GetLogs p3), Settled (GetLogs p3) (Resolved (RLogs l3)),
           Issued (StartProcess ls_local_cmd),
           Settled (StartProcess ls_local_cmd) (Resolved (RProcess p4)),
           Issued (GetLogs p4), Settled (GetLogs p4) (Resolved (RLogs l4))]
        \<and> response_of (diagnose env (instrument sb) (start s)) = Inr (snapshot env l1 l2 l3 l4)))
   \<and> (list_ex is_rejected (trace_of (diagnose env (instrument sb) (start s))) \<longrightarrow>
     (\<exists>c e. last (trace_of (diagnose env (instrument sb) (start s))) = Settled c (Rejected e)
        \<and> \<not> list_ex is_rejected (butlast (trace_of (diagnose env (instrument sb) (start s))))
        \<and> response_of (diagnose env (instrument sb) (start s)) = Inr (diagnose_failed e)))
   \<and> (\<exists>p1 p2 p3 p4.
     prefix (issued_calls (trace_of (diagnose env (instrument sb) (start s))))
       [StartProcess cat_config_cmd, GetLogs p1, StartProcess env_cmd, GetLogs p2,
        StartProcess ls_backup_cmd, GetLogs p3, StartProcess ls_local_cmd, GetLogs p4])"
  by (intro conjI diagnose_full_run diagnose_failed_run diagnose_call_order)

lemma diagnose_on_cat_fails_state:
  "trace_of (diagnose env (instrument ref_sandbox) (start cat_fails_state)) =
     [Issued (StartProcess cat_config_cmd),
      Settled (StartProcess cat_config_cmd) (Rejected (JsError ''startProcess failed''))]
   \<and> response_of (diagnose env (instrument ref_sandbox) (start cat_fails_state)) =
     Inr (diagnose_failed (JsError ''startProcess failed''))"
  by (simp add: diagnose_run instrument_ops observers ref_ops cat_fails_state_def
      populated_state_def outcome_of_def)

text \<open>
  The theorem of claim C4 on a run where all reads resolve and on a run where starting
  the first read fails.
\<close>

theorem diagnose_reads_share_one_try_block_witness:
  "\<not> list_ex is_rejected
       (trace_of (diagnose \<lparr>MOLTBOT_GATEWAY_TOKEN = None\<rparr> (instrument ref_sandbox) (start populated_state)))
   \<and> length (trace_of (diagnose \<lparr>MOLTBOT_GATEWAY_TOKEN = None\<rparr> (instrument ref_sandbox)
        (start populated_state))) = 16
   \<and> code (projr (response_of (diagnose \<lparr>MOLTBOT_GATEWAY_TOKEN = None\<rparr> (instrument ref_sandbox)
        (start populated_state)))) = 200
   \<and> list_ex is_rejected
       (trace_of (diagnose \<lparr>MOLTBOT_GATEWAY_TOKEN = None\<rparr> (instrument ref_sandbox) (start cat_fails_state)))
   \<and> response_of (diagnose \<lparr>MOLTBOT_GATEWAY_TOKEN = None\<rparr> (instrument ref_sandbox)
        (start cat_fails_state)) = Inr (diagnose_failed (JsError ''startProcess failed''))"
proof -
  have quiet: "\<not> list_ex is_rejected
       (trace_of (diagnose \<lparr>MOLTBOT_GATEWAY_TOKEN = None\<rparr> (instrument ref_sandbox) (start populated_state)))"
    by (simp add: diagnose_run instrument_ops observers ref_ops populated_state_def outcome_of_def
        is_rejected_def)
  have loud: "list_ex is_rejected
       (trace_of (diagnose \<lparr>MOLTBOT_GATEWAY_TOKEN = None\<rparr> (instrument ref_sandbox) (start cat_fails_state)))"
    by (simp add: diagnose_on_cat_fails_state is_rejected_def)
  from diagnose_reads_share_one_try_block
         [of "\<lparr>MOLTBOT_GATEWAY_TOKEN = None\<rparr>" ref_sandbox populated_state] quiet
  have full: "length (trace_of (diagnose \<lparr>MOLTBOT_GATEWAY_TOKEN = None\<rparr> (instrument ref_sandbox)
        (start populated_state))) = 16
   \<and> code (projr (response_of (diagnose \<lparr>MOLTBOT_GATEWAY_TOKEN = None\<rparr> (instrument ref_sandbox)
        (start populated_state)))) = 200"
    by (auto simp add: snapshot_def c_json_def)
  from quiet full loud diagnose_on_cat_fails_state show ?thesis by simp
qed

text \<open>
  Claim C4 as stated fails: when starting the read of the configuration file rejects, the
  handler makes no other call and returns the error alone.
\<close>

theorem diagnose_stops_at_the_first_failed_read:
  "trace_of (diagnose \<lparr>MOLTBOT_GATEWAY_TOKEN = None\<rparr> (instrument ref_sandbox) (start cat_fails_state)) =
     [Issued (StartProcess cat_config_cmd),
      Settled (StartProcess cat_config_cmd) (Rejected (JsError ''startProcess failed''))]
   \<and> response_of (diagnose \<lparr>MOLTBOT_GATEWAY_TOKEN = None\<rparr> (instrument ref_sandbox)
        (start cat_fails_state)) =
     Inr \<lparr>code = 500, body = [(''error'', JStr ''startProcess failed'')]\<rparr>"
  by (simp add: diagnose_on_cat_fails_state diagnose_failed_def c_json_status_def error_message_def)

section \<open>The factory reset: what is wiped, and by which request\<close>

lemma words_of_wipe_local: "shell_words wipe_local_cmd = ''rm'' # ''-rf'' # local_targets"
  by (simp add: shell_words_def wipe_local_cmd_def local_targets_def)

lemma words_of_wipe_backup: "shell_words wipe_backup_cmd = ''rm'' # ''-rf'' # backup_targets"
  by (simp add: shell_words_def wipe_backup_cmd_def backup_targets_def)

lemma targets_have_no_meta: "\<not> list_ex has_meta (local_targets @ backup_targets)"
  by (simp add: local_targets_def backup_targets_def has_meta_def shell_meta_def)

lemma run_wipe_local: "run_command wipe_local_cmd fs = rm_rf local_targets fs"
  by (simp add: run_command_def words_of_wipe_local)

lemma run_wipe_backup: "run_command wipe_backup_cmd fs = rm_rf backup_targets fs"
  by (simp add: run_command_def words_of_wipe_backup)

lemma rm_rf_append: "rm_rf bs (rm_rf as fs) = rm_rf (as @ bs) fs"
  by (auto simp add: rm_rf_def under_any_def)

lemma rm_rf_member: "path \<in> rm_rf ts fs \<longleftrightarrow> path \<in> fs \<and> \<not> under_any ts path"
  by (auto simp add: rm_rf_def)

lemma ref_reset_files:
  "files (sbx (snd (reset_factory_defaults_part_001 ref_sandbox w))) =
     (if StartProcess wipe_backup_cmd \<in> faults (sbx w) then
        (if StartProcess wipe_local_cmd \<in> faults (sbx w) then files (sbx w)
         else rm_rf local_targets (files (sbx w)))
      else
        (if StartProcess wipe_local_cmd \<in> faults (sbx w) then rm_rf backup_targets (files (sbx w))
         else rm_rf backup_targets (rm_rf local_targets (files (sbx w)))))"
  by (simp add: reset_part_001_run ref_ops run_wipe_local run_wipe_backup split: prod.splits)

lemma ref_reset_faults:
  "faults (sbx (snd (reset_factory_defaults_part_001 ref_sandbox w))) = faults (sbx w)"
  by (simp add: reset_part_001_run ref_ops split: prod.splits)

lemma ref_reset_gateway:
  "gateway (sbx (snd (reset_factory_defaults_part_001 ref_sandbox w))) =
     (if KillAllMoltbotProcesses \<in> faults (sbx w) then gateway (sbx w) else [])"
  by (simp add: reset_part_001_run ref_ops split: prod.splits)

lemma ref_reset_response:
  "fst (reset_factory_defaults_part_001 ref_sandbox w) =
     Inr (if KillAllMoltbotProcesses \<in> faults (sbx w)
          then reset_failed (JsError ''kill failed'') else reset_ok)"
  by (simp add: reset_part_001_run ref_ops split: prod.splits)


lemma started_commands_part_001:
  "started_commands (trace_of (reset_factory_defaults_part_001 (instrument sb) (start s)))
     = [wipe_local_cmd, wipe_backup_cmd]"
  by (simp add: trace_part_001)

lemma instrumented_final:
  "final_of (reset_factory_defaults_part_001 (instrument sb) (start s))
     = sbx (snd (reset_factory_defaults_part_001 sb \<lparr>sbx = s, console = []\<rparr>))"
  by (simp add: reset_part_001_run instrument_ops observers split: prod.splits)

text \<open>
  Claim C7. In every execution the reset handler starts exactly two commands. Split into
  words they are \<^verbatim>\<open>rm -rf\<close> followed by the declared local paths, and \<^verbatim>\<open>rm -rf\<close>
  followed by the declared backup paths; no path holds a wildcard or any other character
  the shell expands. On the reference sandbox a reset adds no path, leaves every path
  that is not at or under a declared target as it was, and, when no call is made to
  fail, removes exactly the paths at or under the declared targets.
\<close>

theorem reset_wipes_only_the_declared_paths:
  "started_commands (trace_of (reset_factory_defaults_part_001 (instrument sb) (start s0)))
     = [wipe_local_cmd, wipe_backup_cmd]
   \<and> shell_words wipe_local_cmd = ''rm'' # ''-rf'' # local_targets
   \<and> shell_words wipe_backup_cmd = ''rm'' # ''-rf'' # backup_targets
   \<and> \<not> list_ex has_meta (local_targets @ backup_targets)
   \<and> files (final_of (reset_factory_defaults_part_001 (instrument ref_sandbox) (start s)))
       \<subseteq> files s
   \<and> (\<not> under_any (local_targets @ backup_targets) path \<longrightarrow>
        (path \<in> files (final_of (reset_factory_defaults_part_001 (instrument ref_sandbox) (start s)))
         \<longleftrightarrow> path \<in> files s))
   \<and> (faults s = {} \<longrightarrow>
        (path \<in> files (final_of (reset_factory_defaults_part_001 (instrument ref_sandbox) (start s)))
         \<longleftrightarrow> path \<in> files s \<and> \<not> under_any (local_targets @ backup_targets) path))"
proof -
  have after: "files (final_of (reset_factory_defaults_part_001 (instrument ref_sandbox) (start s))) =
     (if StartProcess wipe_backup_cmd \<in> faults s then
        (if StartProcess wipe_local_cmd \<in> faults s then files s
         else rm_rf local_targets (files s))
      else
        (if StartProcess wipe_local_cmd \<in> faults s then rm_rf backup_targets (files s)
         else rm_rf backup_targets (rm_rf local_targets (files s))))"
    by (simp add: instrumented_final ref_reset_files)
  have sub: "files (final_of (reset_factory_defaults_part_001 (instrument ref_sandbox) (start s)))
       \<subseteq> files s"
    unfolding after by (auto simp add: rm_rf_member)
  have frame: "\<not> under_any (local_targets @ backup_targets) path \<longrightarrow>
        (path \<in> files (final_of (reset_factory_defaults_part_001 (instrument ref_sandbox) (start s)))
         \<longleftrightarrow> path \<in> files s)"
    unfolding after by (auto simp add: rm_rf_member under_any_def)
  have exact: "faults s = {} \<longrightarrow>
        (path \<in> files (final_of (reset_factory_defaults_part_001 (instrument ref_sandbox) (start s)))
         \<longleftrightarrow> path \<in> files s \<and> \<not> under_any (local_targets @ backup_targets) path)"
    unfolding after by (simp add: rm_rf_append rm_rf_member)
  show ?thesis
    by (intro conjI started_commands_part_001 words_of_wipe_local words_of_wipe_backup
        targets_have_no_meta sub frame exact)
qed

text \<open>
  The theorem of claim C7 on stored state: a sibling of a target directory and another
  directory of the backup volume survive, the configuration file and the sync marker are
  removed.
\<close>

theorem reset_wipes_only_the_declared_paths_witness:
  "\<not> under_any (local_targets @ backup_targets) ''/root/.openclaw-keep''
   \<and> ''/root/.openclaw-keep''
       \<in> files (final_of (reset_factory_defaults_part_001 (instrument ref_sandbox) (start populated_state)))
   \<and> \<not> under_any (local_targets @ backup_targets) ''/data/moltbot/skills/a.md''
   \<and> ''/data/moltbot/skills/a.md''
       \<in> files (final_of (reset_factory_defaults_part_001 (instrument ref_sandbox) (start populated_state)))
   \<and> faults populated_state = {}
   \<and> ''/root/.openclaw/openclaw.json''
       \<notin> files (final_of (reset_factory_defaults_part_001 (instrument ref_sandbox) (start populated_state)))
   \<and> ''/data/moltbot/.last-sync''
       \<notin> files (final_of (reset_factory_defaults_part_001 (instrument ref_sandbox) (start populated_state)))"
proof -
  have keep: "\<not> under_any (local_targets @ backup_targets) ''/root/.openclaw-keep''"
    by (simp add: under_any_def under_def local_targets_def backup_targets_def)
  have skills: "\<not> under_any (local_targets @ backup_targets) ''/data/moltbot/skills/a.md''"
    by (simp add: under_any_def under_def local_targets_def backup_targets_def)
  have config: "under_any (local_targets @ backup_targets) ''/root/.openclaw/openclaw.json''"
    by (simp add: under_any_def under_def local_targets_def backup_targets_def)
  have sync: "under_any (local_targets @ backup_targets) ''/data/moltbot/.last-sync''"
    by (simp add: under_any_def under_def local_targets_def backup_targets_def)
  have quiet: "faults populated_state = {}"
    by (simp add: populated_state_def)
  have stored: "''/root/.openclaw-keep'' \<in> files populated_state"
    "''/data/moltbot/skills/a.md'' \<in> files populated_state"
    by (simp_all add: populated_state_def)
  from reset_wipes_only_the_declared_paths [of ref_sandbox populated_state populated_state
         "''/root/.openclaw-keep''"]
       reset_wipes_only_the_declared_paths [of ref_sandbox populated_state populated_state
         "''/data/moltbot/skills/a.md''"]
       reset_wipes_only_the_declared_paths [of ref_sandbox populated_state populated_state
         "''/root/.openclaw/openclaw.json''"]
       reset_wipes_only_the_declared_paths [of ref_sandbox populated_state populated_state
         "''/data/moltbot/.last-sync''"]
       keep skills config sync quiet stored
  show ?thesis by simp
qed

lemma response_depends_on_kill:
  "fst (reset_factory_defaults_part_001 sb w) =
     Inr (case fst (killAllMoltbotProcesses sb
                 (snd (startProcess sb wipe_backup_cmd
                    (snd (startProcess sb wipe_local_cmd (sbx w))))))
          of Inr u \<Rightarrow> reset_ok | Inl e \<Rightarrow> reset_failed e)"
  by (simp add: reset_part_001_run split: prod.splits)

lemma reset_on_response:
  "fst (reset_on s) =
     Inr (if KillAllMoltbotProcesses \<in> faults s
          then reset_failed (JsError ''kill failed'') else reset_ok)"
  by (simp add: reset_on_def ref_reset_response)

lemma after_reset_files:
  "files (after_reset s) =
     (if StartProcess wipe_backup_cmd \<in> faults s then
        (if StartProcess wipe_local_cmd \<in> faults s then files s
         else rm_rf local_targets (files s))
      else
        (if StartProcess wipe_local_cmd \<in> faults s then rm_rf backup_targets (files s)
         else rm_rf backup_targets (rm_rf local_targets (files s))))"
  by (simp add: after_reset_def reset_on_def ref_reset_files)

lemma after_reset_faults: "faults (after_reset s) = faults s"
  by (simp add: after_reset_def reset_on_def ref_reset_faults)

lemma after_reset_gateway:
  "gateway (after_reset s) = (if KillAllMoltbotProcesses \<in> faults s then gateway s else [])"
  by (simp add: after_reset_def reset_on_def ref_reset_gateway)

text \<open>
  Claim C8, as amended. For every sandbox the status of a reset is decided by the kill
  alone: the response is \<open>ok\<close> when the kill resolves, whatever the wipes did and
  whatever was stored, and the error response with code 500 when the kill rejects. On the
  reference sandbox: once both wipes of a reset have taken effect, the stored paths are
  those of before that are not at or under a declared target, and a further reset leaves
  them as they are, whichever of its calls are made to fail; when the same calls fail in
  both resets, the stored paths after two resets are those after one; when the kill
  resolves no gateway process is left, after one reset and after two; and a reset of a
  sandbox that stores nothing leaves nothing stored.
\<close>

theorem reset_again_changes_nothing_once_wiped:
  "fst (reset_factory_defaults_part_001 sb w) =
     Inr (case fst (killAllMoltbotProcesses sb
                 (snd (startProcess sb wipe_backup_cmd
                    (snd (startProcess sb wipe_local_cmd (sbx w))))))
          of Inr u \<Rightarrow> reset_ok | Inl e \<Rightarrow> reset_failed e)
   \<and> fst (reset_on s) =
       Inr (if KillAllMoltbotProcesses \<in> faults s
            then reset_failed (JsError ''kill failed'') else reset_ok)
   \<and> (StartProcess wipe_local_cmd \<notin> faults s \<and> StartProcess wipe_backup_cmd \<notin> faults s \<longrightarrow>
        (path \<in> files (after_reset s)
           \<longleftrightarrow> path \<in> files s \<and> \<not> under_any (local_targets @ backup_targets) path)
        \<and> files (after_reset ((after_reset s)\<lparr>faults := f2\<rparr>)) = files (after_reset s))
   \<and> files (after_reset (after_reset s)) = files (after_reset s)
   \<and> (KillAllMoltbotProcesses \<notin> faults s \<longrightarrow>
        gateway (after_reset s) = []
        \<and> gateway (after_reset ((after_reset s)\<lparr>faults := f2\<rparr>)) = [])
   \<and> (files s = {} \<longrightarrow> files (after_reset s) = {})"
proof -
  have wiped: "StartProcess wipe_local_cmd \<notin> faults s \<and> StartProcess wipe_backup_cmd \<notin> faults s \<longrightarrow>
        (path \<in> files (after_reset s)
           \<longleftrightarrow> path \<in> files s \<and> \<not> under_any (local_targets @ backup_targets) path)
        \<and> files (after_reset ((after_reset s)\<lparr>faults := f2\<rparr>)) = files (after_reset s)"
    by (auto simp add: after_reset_files rm_rf_member under_any_def)
  have frozen: "files (after_reset (after_reset s)) = files (after_reset s)"
    by (auto simp add: after_reset_files after_reset_faults rm_rf_member)
  have stopped: "KillAllMoltbotProcesses \<notin> faults s \<longrightarrow>
        gateway (after_reset s) = []
        \<and> gateway (after_reset ((after_reset s)\<lparr>faults := f2\<rparr>)) = []"
    by (simp add: after_reset_gateway)
  have empty: "files s = {} \<longrightarrow> files (after_reset s) = {}"
    by (auto simp add: after_reset_files rm_rf_member)
  show ?thesis
    by (intro conjI response_depends_on_kill reset_on_response wiped frozen stopped empty)
qed

text \<open>
  The theorem of claim C8 on a sandbox with stored state and a running gateway, followed
  by a reset whose local wipe fails, and on a sandbox that was never initialised.
\<close>

theorem reset_again_changes_nothing_once_wiped_witness:
  "StartProcess wipe_local_cmd \<notin> faults populated_state
   \<and> StartProcess wipe_backup_cmd \<notin> faults populated_state
   \<and> KillAllMoltbotProcesses \<notin> faults populated_state
   \<and> fst (reset_on populated_state) = Inr reset_ok
   \<and> ''/root/.openclaw/openclaw.json'' \<in> files populated_state
   \<and> ''/root/.openclaw/openclaw.json'' \<notin> files (after_reset populated_state)
   \<and> ''/etc/passwd'' \<in> files (after_reset populated_state)
   \<and> files (after_reset ((after_reset populated_state)\<lparr>faults := {StartProcess wipe_local_cmd}\<rparr>))
       = files (after_reset populated_state)
   \<and> gateway (after_reset populated_state) = []
   \<and> files fresh_state = {}
   \<and> files (after_reset fresh_state) = {}
   \<and> fst (reset_on fresh_state) = Inr reset_ok"
proof -
  have quiet: "StartProcess wipe_local_cmd \<notin> faults populated_state"
    "StartProcess wipe_backup_cmd \<notin> faults populated_state"
    "KillAllMoltbotProcesses \<notin> faults populated_state"
    "KillAllMoltbotProcesses \<notin> faults fresh_state" "files fresh_state = {}"
    by (simp_all add: populated_state_def fresh_state_def)
  have stored: "''/root/.openclaw/openclaw.json'' \<in> files populated_state"
    "''/etc/passwd'' \<in> files populated_state"
    by (simp_all add: populated_state_def)
  have config: "under_any (local_targets @ backup_targets) ''/root/.openclaw/openclaw.json''"
    by (simp add: under_any_def under_def local_targets_def backup_targets_def)
  have passwd: "\<not> under_any (local_targets @ backup_targets) ''/etc/passwd''"
    by (simp add: under_any_def under_def local_targets_def backup_targets_def)
  from reset_again_changes_nothing_once_wiped
         [of ref_sandbox "\<lparr>sbx = populated_state, console = []\<rparr>" populated_state
             "''/root/.openclaw/openclaw.json''" "{StartProcess wipe_local_cmd}"]
       reset_again_changes_nothing_once_wiped
         [of ref_sandbox "\<lparr>sbx = populated_state, console = []\<rparr>" populated_state
             "''/etc/passwd''" "{StartProcess wipe_local_cmd}"]
       reset_again_changes_nothing_once_wiped
         [of ref_sandbox "\<lparr>sbx = fresh_state, console = []\<rparr>" fresh_state
             "''/etc/passwd''" "{}"]
       quiet stored config passwd
  show ?thesis by simp
qed

text \<open>
  Claim C8 as stated fails twice. On a sandbox that was never initialised, a reset whose
  kill rejects answers with the error response and code 500. And when the local wipe
  fails in the first reset only, the configuration file is stored after one reset and
  gone after two: the state after two resets is not the state after one.
\<close>

theorem reset_fails_with_the_kill_and_can_finish_a_wipe:
  "files kill_fails_fresh_state = {}
   \<and> fst (reset_on kill_fails_fresh_state) =
       Inr \<lparr>code = 500,
            body = [(''status'', JStr ''error''), (''message'', JStr ''kill failed'')]\<rparr>
   \<and> ''/root/.openclaw/openclaw.json'' \<in> files (after_reset wipe_local_fails_state)
   \<and> ''/root/.openclaw/openclaw.json''
       \<notin> files (after_reset ((after_reset wipe_local_fails_state)\<lparr>faults := {}\<rparr>))"
proof -
  have absent: "files kill_fails_fresh_state = {}"
    by (simp add: kill_fails_fresh_state_def fresh_state_def)
  have failed: "fst (reset_on kill_fails_fresh_state) =
       Inr \<lparr>code = 500,
            body = [(''status'', JStr ''error''), (''message'', JStr ''kill failed'')]\<rparr>"
    by (simp add: reset_on_response kill_fails_fresh_state_def fresh_state_def reset_failed_def
        c_json_status_def error_message_def)
  have left: "''/root/.openclaw/openclaw.json'' \<in> files (after_reset wipe_local_fails_state)"
    by (simp add: after_reset_files wipe_local_fails_state_def populated_state_def wipe_cmds_differ
        rm_rf_member under_any_def under_def backup_targets_def)
  have finished: "''/root/.openclaw/openclaw.json''
       \<notin> files (after_reset ((after_reset wipe_local_fails_state)\<lparr>faults := {}\<rparr>))"
    by (simp add: after_reset_files rm_rf_member under_any_def under_def local_targets_def)
  show ?thesis by (intro conjI absent failed left finished)
qed

lemma reset_route_matches_every_method:
  "find_route m ''/reset-factory-defaults'' = Some ResetFactoryDefaults"
  by (cases m) (simp_all add: find_route_def publicRoutes_def method_matches_def path_matches_def
      suffix_to_prefix)

text \<open>
  Claim C9 fails on the code. The route is registered with \<^verbatim>\<open>publicRoutes.all\<close>, so it
  matches every method: a GET request runs the reset handler, which issues both wipes and
  the kill, removes the stored configuration and stops the gateway.
\<close>

theorem reset_runs_on_a_get_request:
  "handle_request \<lparr>MOLTBOT_GATEWAY_TOKEN = None\<rparr> (instrument ref_sandbox) GET ''/reset-factory-defaults''
     = Some (reset_factory_defaults_part_001 (instrument ref_sandbox))
   \<and> issued_calls (trace_of (the (handle_request \<lparr>MOLTBOT_GATEWAY_TOKEN = None\<rparr>
          (instrument ref_sandbox) GET ''/reset-factory-defaults'') (start populated_state)))
     = [StartProcess wipe_local_cmd, StartProcess wipe_backup_cmd, KillAllMoltbotProcesses]
   \<and> ''/root/.openclaw/openclaw.json'' \<in> files populated_state
   \<and> ''/root/.openclaw/openclaw.json''
       \<notin> files (final_of (the (handle_request \<lparr>MOLTBOT_GATEWAY_TOKEN = None\<rparr>
            (instrument ref_sandbox) GET ''/reset-factory-defaults'') (start populated_state)))
   \<and> gateway (final_of (the (handle_request \<lparr>MOLTBOT_GATEWAY_TOKEN = None\<rparr>
            (instrument ref_sandbox) GET ''/reset-factory-defaults'') (start populated_state))) = []"
proof -
  have routed: "handle_request \<lparr>MOLTBOT_GATEWAY_TOKEN = None\<rparr> (instrument ref_sandbox) GET
       ''/reset-factory-defaults'' = Some (reset_factory_defaults_part_001 (instrument ref_sandbox))"
    by (simp add: handle_request_def reset_route_matches_every_method)
  have gone: "''/root/.openclaw/openclaw.json''
       \<notin> files (final_of (reset_factory_defaults_part_001 (instrument ref_sandbox) (start populated_state)))"
    by (simp add: instrumented_final ref_reset_files rm_rf_member populated_state_def
        under_any_def under_def local_targets_def)
  have killed: "gateway (final_of (reset_factory_defaults_part_001 (instrument ref_sandbox)
        (start populated_state))) = []"
    by (simp add: instrumented_final ref_reset_gateway populated_state_def)
  show ?thesis
    unfolding routed by (simp add: trace_part_001 gone killed) (simp add: populated_state_def)
qed

end
